theory Spec2Isabelle
  imports Complex_Main
begin

section \<open>Data model (src/types/index.ts)\<close>

text \<open>
  A JavaScript \<open>number\<close> that the store only copies is modelled as a real, a \<open>Date\<close> as
  its epoch milliseconds. An optional field \<open>f?: T\<close> is a \<open>T option\<close>. Record fields carry
  a short prefix, since several interfaces share field names (\<open>id\<close>, \<open>name\<close>, \<open>status\<close>).
\<close>

type_synonym number = real
type_synonym Date = int

datatype ReasoningMode = TOT_ONLY | RAG_ONLY | S3_RAG | TOT_ENHANCED_RAG | ADAPTIVE

datatype TaskComplexity = SIMPLE | MODERATE | COMPLEX | RESEARCH

record ThoughtNode =
  tn_id :: string
  tn_content :: string
  tn_depth :: number
  tn_parent_id :: "string option"
  tn_children :: "string list"
  tn_value_score :: number
  tn_confidence :: number
  tn_reasoning_step :: string
  tn_timestamp :: Date

record MessageMetadata =
  md_reasoning_mode :: "ReasoningMode option"
  md_confidence_score :: "number option"
  md_processing_time :: "number option"
  md_thought_path :: "ThoughtNode list option"
  md_documents_retrieved :: "number option"
  md_gpu_utilization :: "number option"

record ReasoningContent =
  rc_query :: string
  rc_response :: string
  rc_reasoning_path :: "ThoughtNode list"
  rc_documents_retrieved :: "number option"
  rc_confidence_score :: number
  rc_task_complexity :: TaskComplexity
  rc_total_time :: number

record EvolutionMetrics =
  em_average_fitness :: number
  em_best_fitness :: number
  em_diversity_score :: number
  em_convergence_rate :: number
  em_mutation_rate :: number
  em_crossover_rate :: number

record EvolutionContent =
  ec_generation :: number
  ec_fitness_score :: number
  ec_recipe_changes :: "string list"
  ec_performance_metrics :: EvolutionMetrics
  ec_population_size :: number
  ec_convergence_status :: string

text \<open>\<open>type: 'user' | 'agent' | 'system' | 'reasoning' | 'evolution'\<close>\<close>

datatype MessageType = User | Agent | System | Reasoning | Evolution

text \<open>\<open>content: string | ReasoningContent | EvolutionContent\<close>\<close>

datatype MessageContent =
  Text string
| ReasoningC ReasoningContent
| EvolutionC EvolutionContent

record ChatMessage =
  msg_id :: string
  msg_type :: MessageType
  msg_content :: MessageContent
  msg_agentId :: "string option"
  msg_timestamp :: Date
  msg_metadata :: "MessageMetadata option"

text \<open>
  \<open>Partial<ChatMessage>\<close>: every field may be absent. \<open>Some v\<close> is a field present in
  the object literal with value \<open>v\<close>, \<open>None\<close> a field that is not there.
\<close>

record ChatMessage_partial =
  pmsg_id :: "string option"
  pmsg_type :: "MessageType option"
  pmsg_content :: "MessageContent option"
  pmsg_agentId :: "string option"
  pmsg_timestamp :: "Date option"
  pmsg_metadata :: "MessageMetadata option"

subsection \<open>Evolution snapshot\<close>

record NutritionalInfo =
  ni_calories :: number
  ni_protein :: number
  ni_carbs :: number
  ni_fat :: number
  ni_fiber :: number

record RecipeMetadata =
  rm_prep_time :: number
  rm_cook_time :: number
  rm_difficulty :: string
  rm_yield :: number
  rm_tags :: "string list"
  rm_nutritional_info :: "NutritionalInfo option"

record Recipe =
  rcp_id :: string
  rcp_name :: string
  rcp_description :: string
  rcp_ingredients :: "(string \<times> number) list"
  rcp_steps :: "string list"
  rcp_fitness_score :: number
  rcp_generation :: number
  rcp_parent_ids :: "string list option"
  rcp_metadata :: RecipeMetadata

record FitnessData =
  fd_generation :: number
  fd_average :: number
  fd_best :: number
  fd_worst :: number
  fd_diversity :: number
  fd_timestamp :: Date

record ConvergenceData =
  cd_rate :: number
  cd_plateau_generations :: number
  cd_improvement_threshold :: number
  cd_is_converged :: bool

record EvolutionState =
  isRunning :: bool
  currentGeneration :: number
  maxGenerations :: number
  populationSize :: number
  bestRecipes :: "Recipe list"
  fitnessHistory :: "FitnessData list"
  convergenceMetrics :: ConvergenceData
  elapsedTime :: number

text \<open>\<open>Partial<EvolutionState>\<close>\<close>

record EvolutionState_partial =
  p_isRunning :: "bool option"
  p_currentGeneration :: "number option"
  p_maxGenerations :: "number option"
  p_populationSize :: "number option"
  p_bestRecipes :: "Recipe list option"
  p_fitnessHistory :: "FitnessData list option"
  p_convergenceMetrics :: "ConvergenceData option"
  p_elapsedTime :: "number option"

subsection \<open>Server registry\<close>

datatype MCPServerType = FILESYSTEM | DATABASE | WEB | NLP | GRAPHICS | ANALYTICS | CUSTOM

datatype MCPServerStatus = RUNNING | STOPPED | ERROR | STARTING | STOPPING

datatype HealthStatus = Healthy | Unhealthy | Unknown

record MCPServerHealth =
  h_status :: HealthStatus
  h_last_check :: Date
  h_response_time :: number
  h_error_message :: "string option"
  h_uptime :: number

record MCPServerConfig =
  cfg_command :: "string list"
  cfg_environment :: "(string \<times> string) list"
  cfg_working_directory :: "string option"
  cfg_auto_restart :: bool
  cfg_max_restarts :: number
  cfg_timeout :: number

record MCPServerStats =
  st_requests_total :: number
  st_requests_success :: number
  st_requests_error :: number
  st_average_response_time :: number
  st_last_request :: Date
  st_memory_usage :: number

record MCPServer =
  srv_id :: string
  srv_name :: string
  srv_type :: MCPServerType
  srv_status :: MCPServerStatus
  srv_version :: string
  srv_description :: string
  srv_capabilities :: "string list"
  srv_health :: MCPServerHealth
  srv_config :: MCPServerConfig
  srv_stats :: MCPServerStats

text \<open>\<open>Partial<MCPServer>\<close>\<close>

record MCPServer_partial =
  psrv_id :: "string option"
  psrv_name :: "string option"
  psrv_type :: "MCPServerType option"
  psrv_status :: "MCPServerStatus option"
  psrv_version :: "string option"
  psrv_description :: "string option"
  psrv_capabilities :: "string list option"
  psrv_health :: "MCPServerHealth option"
  psrv_config :: "MCPServerConfig option"
  psrv_stats :: "MCPServerStats option"

section \<open>Domain state store (src/stores/appStore.ts)\<close>

text \<open>
  The data fields of \<open>AppState\<close> that the chat, evolution and registry mutators read or
  write. The remaining data fields of the interface (\<open>user\<close>, \<open>isAuthenticated\<close>,
  \<open>typingUsers\<close>, \<open>reasoningState\<close>, \<open>searchMetrics\<close>, \<open>indexStatus\<close>, \<open>systemMetrics\<close>,
  \<open>ui\<close>) live in the extension slot of the record: every mutator below is defined on
  \<open>'z AppState_scheme\<close> and so carries them along untouched, as zustand's shallow
  \<open>set({...})\<close> does. \<open>Map<string, ChatMessage[]>\<close> is a partial map.
\<close>

record AppState =
  conversations :: "string \<rightharpoonup> ChatMessage list"
  activeConversation :: string
  evolutionState :: EvolutionState
  mcpServers :: "MCPServer list"

text \<open>\<open>m.get(k) || []\<close>: an array is never falsy, so only a missing key gives \<open>[]\<close>.\<close>

definition get_or_empty :: "('k \<rightharpoonup> 'a list) \<Rightarrow> 'k \<Rightarrow> 'a list" where
  "get_or_empty m k = (case m k of None \<Rightarrow> [] | Some xs \<Rightarrow> xs)"

text \<open>
  One field of an object spread \<open>{ ...old, ...updates }\<close>: a field present in
  \<open>updates\<close> wins, an absent one keeps the old value.
\<close>

definition overlay :: "'a \<Rightarrow> 'a option \<Rightarrow> 'a" where
  "overlay old upd = (case upd of None \<Rightarrow> old | Some v \<Rightarrow> v)"

definition overlay_opt :: "'a option \<Rightarrow> 'a option \<Rightarrow> 'a option" where
  "overlay_opt old upd = (case upd of None \<Rightarrow> old | Some v \<Rightarrow> Some v)"

text \<open>\<open>{ ...msg, ...updates }\<close>\<close>

definition spread_ChatMessage :: "ChatMessage \<Rightarrow> ChatMessage_partial \<Rightarrow> ChatMessage" where
  "spread_ChatMessage msg updates =
     \<lparr> msg_id = overlay (msg_id msg) (pmsg_id updates),
       msg_type = overlay (msg_type msg) (pmsg_type updates),
       msg_content = overlay (msg_content msg) (pmsg_content updates),
       msg_agentId = overlay_opt (msg_agentId msg) (pmsg_agentId updates),
       msg_timestamp = overlay (msg_timestamp msg) (pmsg_timestamp updates),
       msg_metadata = overlay_opt (msg_metadata msg) (pmsg_metadata updates) \<rparr>"

text \<open>\<open>{ ...get().evolutionState, ...updates }\<close>\<close>

definition spread_EvolutionState ::
  "EvolutionState \<Rightarrow> EvolutionState_partial \<Rightarrow> EvolutionState" where
  "spread_EvolutionState st updates =
     \<lparr> isRunning = overlay (isRunning st) (p_isRunning updates),
       currentGeneration = overlay (currentGeneration st) (p_currentGeneration updates),
       maxGenerations = overlay (maxGenerations st) (p_maxGenerations updates),
       populationSize = overlay (populationSize st) (p_populationSize updates),
       bestRecipes = overlay (bestRecipes st) (p_bestRecipes updates),
       fitnessHistory = overlay (fitnessHistory st) (p_fitnessHistory updates),
       convergenceMetrics = overlay (convergenceMetrics st) (p_convergenceMetrics updates),
       elapsedTime = overlay (elapsedTime st) (p_elapsedTime updates) \<rparr>"

text \<open>\<open>{ ...server, ...updates }\<close>\<close>

definition spread_MCPServer :: "MCPServer \<Rightarrow> MCPServer_partial \<Rightarrow> MCPServer" where
  "spread_MCPServer server updates =
     \<lparr> srv_id = overlay (srv_id server) (psrv_id updates),
       srv_name = overlay (srv_name server) (psrv_name updates),
       srv_type = overlay (srv_type server) (psrv_type updates),
       srv_status = overlay (srv_status server) (psrv_status updates),
       srv_version = overlay (srv_version server) (psrv_version updates),
       srv_description = overlay (srv_description server) (psrv_description updates),
       srv_capabilities = overlay (srv_capabilities server) (psrv_capabilities updates),
       srv_health = overlay (srv_health server) (psrv_health updates),
       srv_config = overlay (srv_config server) (psrv_config updates),
       srv_stats = overlay (srv_stats server) (psrv_stats updates) \<rparr>"

subsection \<open>Initial state\<close>

definition initialEvolutionState :: EvolutionState where
  "initialEvolutionState =
     \<lparr> isRunning = False,
       currentGeneration = 0,
       maxGenerations = 100,
       populationSize = 20,
       bestRecipes = [],
       fitnessHistory = [],
       convergenceMetrics =
         \<lparr> cd_rate = 0, cd_plateau_generations = 0,
           cd_improvement_threshold = 1 / 100, cd_is_converged = False \<rparr>,
       elapsedTime = 0 \<rparr>"

text \<open>\<open>conversations: new Map([['default', []]])\<close>, \<open>activeConversation: 'default'\<close>,
  \<open>mcpServers: []\<close>.\<close>

definition initialState :: AppState where
  "initialState =
     \<lparr> conversations = [''default'' \<mapsto> []],
       activeConversation = ''default'',
       evolutionState = initialEvolutionState,
       mcpServers = [] \<rparr>"

subsection \<open>Mutators\<close>

text \<open>
  Each mutator takes the store state last and returns the state after zustand's
  \<open>set\<close>. \<open>new Map(get().conversations)\<close> copies the map, so the previous state
  value is not touched.
\<close>

definition addMessage ::
  "string \<Rightarrow> ChatMessage \<Rightarrow> 'z AppState_scheme \<Rightarrow> 'z AppState_scheme" where
  "addMessage conversationId message s =
     (let convs = conversations s;
          messages = get_or_empty convs conversationId;
          convs' = convs(conversationId \<mapsto> messages @ [message])
      in s\<lparr>conversations := convs'\<rparr>)"

definition updateMessage ::
  "string \<Rightarrow> string \<Rightarrow> ChatMessage_partial \<Rightarrow> 'z AppState_scheme \<Rightarrow> 'z AppState_scheme" where
  "updateMessage conversationId messageId updates s =
     (let convs = conversations s;
          messages = get_or_empty convs conversationId;
          updatedMessages =
            map (\<lambda>msg. if msg_id msg = messageId then spread_ChatMessage msg updates else msg)
              messages;
          convs' = convs(conversationId \<mapsto> updatedMessages)
      in s\<lparr>conversations := convs'\<rparr>)"

text \<open>
  \<open>setActiveConversation\<close> writes the missing key into the live map and then stores a
  copy of it; the state after \<open>set\<close> holds the map with the key added.
\<close>

definition setActiveConversation :: "string \<Rightarrow> 'z AppState_scheme \<Rightarrow> 'z AppState_scheme" where
  "setActiveConversation conversationId s =
     (let convs = conversations s;
          convs' = (if convs conversationId = None then convs(conversationId \<mapsto> []) else convs)
      in s\<lparr>activeConversation := conversationId, conversations := convs'\<rparr>)"

definition updateEvolutionState ::
  "EvolutionState_partial \<Rightarrow> 'z AppState_scheme \<Rightarrow> 'z AppState_scheme" where
  "updateEvolutionState updates s =
     s\<lparr>evolutionState := spread_EvolutionState (evolutionState s) updates\<rparr>"

definition updateMCPServer ::
  "string \<Rightarrow> MCPServer_partial \<Rightarrow> 'z AppState_scheme \<Rightarrow> 'z AppState_scheme" where
  "updateMCPServer serverId updates s =
     s\<lparr>mcpServers :=
         map (\<lambda>server. if srv_id server = serverId then spread_MCPServer server updates
                        else server)
           (mcpServers s)\<rparr>"

section \<open>Transport session and event bus (src/services/websocket.ts)\<close>

text \<open>
  The class \<open>WebSocketService\<close> is modelled by explicit state passing. The state record
  holds the private fields of the class and, next to them, the parts of the JavaScript
  run time that its methods act on: the \<open>WebSocket\<close> objects created so far (a store,
  addressed by index, so that the listeners of a socket the service no longer refers to
  can still run), the promises returned by \<open>connect\<close>, the callbacks scheduled with
  \<open>setTimeout\<close> and not yet run, the messages handed to \<open>ws.send\<close>, and the console.
  Three log fields record what happens: \<open>emitted\<close> every call of \<open>emit\<close>, \<open>calls\<close> every
  invocation of a subscriber, and \<open>console\<close> the \<open>console.error\<close> and \<open>console.warn\<close>
  lines (the informational \<open>console.log\<close> lines are left out).

  Payloads (\<open>data: any\<close>) are JSON values. A subscriber is a reference (JavaScript
  compares handlers by identity in \<open>indexOf\<close>) whose behaviour is given from outside by
  a function: called with the payload and the consumer's own state, it gives the calls
  of \<open>on\<close>, \<open>off\<close> and unsubscribe closures that the subscriber makes on the service
  while it runs, in order, and how it ends (it returns or throws) with the consumer's
  state then. The handler arrays of \<open>eventHandlers\<close> are objects that \<open>push\<close> and
  \<open>splice\<close> change in place and that \<open>forEach\<close> reads while it runs, so they live in
  a store of their own (\<open>arrays\<close>), and \<open>eventHandlers\<close> maps an event type to the
  address of its array. Calls of \<open>connect\<close>, \<open>disconnect\<close> or a sender from inside a
  subscriber, the inbound \<open>onmessage\<close> path (\<open>handleMessage\<close>) and the intent senders
  are not part of this model.
\<close>

datatype json =
  JNull | JBool bool | JNum int | JStr string | JArr "json list" | JObj "(string \<times> json) list"

datatype js_error = JsError string

type_synonym handler_ref = nat

text \<open>The closure returned by \<open>on(event, handler)\<close>.\<close>

datatype unsubscribe = Unsubscribe string handler_ref

text \<open>What a subscriber may call on the service while it runs.\<close>

datatype bus_call =
  InnerOn string handler_ref
| InnerOff string "handler_ref option"
| InnerUnsubscribe unsubscribe

datatype 'w completion = Returns 'w | Throws js_error 'w

type_synonym 'w behaviour =
  "handler_ref \<Rightarrow> json \<Rightarrow> 'w \<Rightarrow> bus_call list \<times> 'w completion"

datatype readyState = CONNECTING | OPEN | CLOSING | CLOSED

text \<open>
  A \<open>WebSocket\<close> object as \<open>connect\<close> creates it. Its four listeners are the closures
  of \<open>connect\<close>; \<open>settles\<close> is the promise whose \<open>resolve\<close> and \<open>reject\<close> they captured.
\<close>

record socket =
  sock_url :: string
  readyState :: readyState
  settles :: nat
  close_fired :: bool

datatype promise_state = Pending | Resolved bool | Rejected js_error

text \<open>The three callbacks the class hands to \<open>setTimeout\<close>.\<close>

datatype callback =
  Reconnect
| CheckConnection nat
| RejectIfNotOpen nat

datatype console_entry =
  Console_error string "js_error option"
| Console_warn string

record 'w ws_state =
  ws :: "nat option"
  eventHandlers :: "string \<rightharpoonup> nat"
  arrays :: "handler_ref list list"
  reconnectAttempts :: nat
  isConnecting :: bool
  url :: string
  sockets :: "socket list"
  promises :: "promise_state list"
  timeouts :: "(nat \<times> callback) list"
  sent :: "(nat \<times> string \<times> json) list"
  console :: "console_entry list"
  emitted :: "(string \<times> json) list"
  calls :: "(string \<times> handler_ref \<times> json \<times> js_error option) list"
  world :: 'w

text \<open>\<open>private maxReconnectAttempts = 5; private reconnectDelay = 1000;\<close> Neither field
  is assigned anywhere else.\<close>

definition maxReconnectAttempts :: nat where
  "maxReconnectAttempts = 5"

definition reconnectDelay :: nat where
  "reconnectDelay = 1000"

text \<open>What \<open>connect\<close> reads from its surroundings: \<open>import.meta.env.VITE_WS_URL\<close>,
  \<open>window.location\<close>, and whether \<open>new WebSocket(url)\<close> throws.\<close>

record env =
  VITE_WS_URL :: "string option"
  location_protocol :: string
  location_host :: string
  WebSocket_throws :: "string \<Rightarrow> js_error option"

subsection \<open>Constructor\<close>

definition eventTypes :: "string list" where
  "eventTypes =
     [''connection_status'', ''connection_error'', ''connection_failed'', ''chat_response'',
      ''typing_indicator'', ''reasoning_update'', ''reasoning_complete'',
      ''evolution_progress'', ''evolution_complete'', ''system_metrics'', ''system_alert'',
      ''mcp_server_status'', ''mcp_server_health'', ''ollama_status'',
      ''ollama_model_update'', ''ollama_metrics'', ''ollama_error'']"

text \<open>\<open>this.eventHandlers.set(event, [])\<close>: a new, empty array becomes the entry.\<close>

definition set_empty_array :: "string \<Rightarrow> 'w ws_state \<Rightarrow> 'w ws_state" where
  "set_empty_array event s =
     s\<lparr>arrays := arrays s @ [[]],
       eventHandlers := (eventHandlers s)(event \<mapsto> length (arrays s))\<rparr>"

definition setupEventHandlers :: "'w ws_state \<Rightarrow> 'w ws_state" where
  "setupEventHandlers s = fold (\<lambda>eventType s'. set_empty_array eventType s') eventTypes s"

definition new_WebSocketService :: "'w \<Rightarrow> 'w ws_state" where
  "new_WebSocketService w =
     setupEventHandlers
       \<lparr> ws = None, eventHandlers = Map.empty, arrays = [], reconnectAttempts = 0,
         isConnecting = False,
         url = [], sockets = [], promises = [], timeouts = [], sent = [], console = [],
         emitted = [], calls = [], world = w \<rparr>"

subsection \<open>Run-time primitives\<close>

text \<open>\<open>this.ws?.readyState\<close>: \<open>None\<close> stands for \<open>undefined\<close>.\<close>

definition ws_readyState :: "'w ws_state \<Rightarrow> readyState option" where
  "ws_readyState s = (case ws s of None \<Rightarrow> None | Some i \<Rightarrow> Some (readyState (sockets s ! i)))"

text \<open>Settling a promise a second time has no effect.\<close>

definition resolve :: "nat \<Rightarrow> bool \<Rightarrow> 'w ws_state \<Rightarrow> 'w ws_state" where
  "resolve p v s =
     (if p < length (promises s) \<and> promises s ! p = Pending
      then s\<lparr>promises := (promises s)[p := Resolved v]\<rparr> else s)"

definition reject :: "nat \<Rightarrow> js_error \<Rightarrow> 'w ws_state \<Rightarrow> 'w ws_state" where
  "reject p e s =
     (if p < length (promises s) \<and> promises s ! p = Pending
      then s\<lparr>promises := (promises s)[p := Rejected e]\<rparr> else s)"

definition setTimeout :: "callback \<Rightarrow> nat \<Rightarrow> 'w ws_state \<Rightarrow> 'w ws_state" where
  "setTimeout cb delay s = s\<lparr>timeouts := timeouts s @ [(delay, cb)]\<rparr>"

text \<open>\<open>WebSocket.close(code, reason)\<close>: nothing on a socket that is closing or closed,
  otherwise the socket starts closing (its close event comes later).\<close>

definition socket_close :: "nat \<Rightarrow> 'w ws_state \<Rightarrow> 'w ws_state" where
  "socket_close i s =
     (if readyState (sockets s ! i) = CLOSING \<or> readyState (sockets s ! i) = CLOSED then s
      else s\<lparr>sockets := (sockets s)[i := (sockets s ! i)\<lparr>readyState := CLOSING\<rparr>]\<rparr>)"

text \<open>
  Statements that may throw return \<open>Inr\<close> the state reached, or \<open>Inl\<close> the error thrown
  together with the state reached until then.
\<close>

type_synonym 's may_throw = "js_error \<times> 's + 's"

definition try_catch :: "'s may_throw \<Rightarrow> (js_error \<Rightarrow> 's \<Rightarrow> 's may_throw) \<Rightarrow> 's may_throw" where
  "try_catch body handler = (case body of Inr s \<Rightarrow> Inr s | Inl (e, s) \<Rightarrow> handler e s)"

text \<open>
  \<open>xs.forEach(f)\<close> on an array that lives in the state (\<open>arr\<close> reads it): the
  length is read once, before the first call; then for each index below that length,
  in order, the element found at the index at that moment is passed to \<open>f\<close>, and an
  index that the array no longer has is passed over. An exception that escapes \<open>f\<close>
  ends the loop and escapes \<open>forEach\<close>. \<open>forEach_from arr k n\<close> visits the \<open>n\<close>
  indices from \<open>k\<close> on.
\<close>

fun forEach_from ::
  "('s \<Rightarrow> 'a list) \<Rightarrow> nat \<Rightarrow> nat \<Rightarrow> ('a \<Rightarrow> 's \<Rightarrow> 's may_throw) \<Rightarrow> 's \<Rightarrow> 's may_throw" where
  "forEach_from arr k 0 f s = Inr s"
| "forEach_from arr k (Suc n) f s =
     (if k < length (arr s)
      then (case f (arr s ! k) s of
              Inl err \<Rightarrow> Inl err
            | Inr s' \<Rightarrow> forEach_from arr (Suc k) n f s')
      else forEach_from arr (Suc k) n f s)"

definition forEach :: "('s \<Rightarrow> 'a list) \<Rightarrow> ('a \<Rightarrow> 's \<Rightarrow> 's may_throw) \<Rightarrow> 's \<Rightarrow> 's may_throw" where
  "forEach arr f s = forEach_from arr 0 (length (arr s)) f s"

text \<open>\<open>xs.indexOf(x)\<close>, \<open>-1\<close> when absent, and \<open>xs.splice(index, 1)\<close>.\<close>

fun indexOf :: "'a \<Rightarrow> 'a list \<Rightarrow> int" where
  "indexOf x [] = - 1"
| "indexOf x (y # ys) =
     (if x = y then 0 else (let i = indexOf x ys in if i = - 1 then - 1 else i + 1))"

definition splice1 :: "nat \<Rightarrow> 'a list \<Rightarrow> 'a list" where
  "splice1 index xs = take index xs @ drop (Suc index) xs"

definition console_error :: "string \<Rightarrow> js_error option \<Rightarrow> 'w ws_state \<Rightarrow> 'w ws_state" where
  "console_error text e s = s\<lparr>console := console s @ [Console_error text e]\<rparr>"

definition console_warn :: "string \<Rightarrow> 'w ws_state \<Rightarrow> 'w ws_state" where
  "console_warn text s = s\<lparr>console := console s @ [Console_warn text]\<rparr>"

subsection \<open>Event bus: \<open>on\<close>, \<open>off\<close>, \<open>emit\<close>\<close>


text \<open>\<open>on\<close>: \<open>push\<close> changes the array of the entry in place; \<open>set\<close> stores the same
  array again, or the new one when there was no entry.\<close>

definition on :: "string \<Rightarrow> handler_ref \<Rightarrow> 'w ws_state \<Rightarrow> 'w ws_state \<times> unsubscribe" where
  "on event handler s =
     (case eventHandlers s event of
        Some a \<Rightarrow>
          (s\<lparr>arrays := (arrays s)[a := arrays s ! a @ [handler]],
             eventHandlers := (eventHandlers s)(event \<mapsto> a)\<rparr>,
           Unsubscribe event handler)
      | None \<Rightarrow>
          (s\<lparr>arrays := arrays s @ [[handler]],
             eventHandlers := (eventHandlers s)(event \<mapsto> length (arrays s))\<rparr>,
           Unsubscribe event handler))"

text \<open>The closure: \<open>indexOf\<close> on the array of the entry, then \<open>splice\<close> in place.\<close>

fun call_unsubscribe :: "unsubscribe \<Rightarrow> 'w ws_state \<Rightarrow> 'w ws_state" where
  "call_unsubscribe (Unsubscribe event handler) s =
     (case eventHandlers s event of
        None \<Rightarrow> s
      | Some a \<Rightarrow>
          (let currentHandlers = arrays s ! a;
               index = indexOf handler currentHandlers
           in if index > - 1
              then s\<lparr>arrays := (arrays s)[a := splice1 (nat index) currentHandlers],
                     eventHandlers := (eventHandlers s)(event \<mapsto> a)\<rparr>
              else s))"

definition off :: "string \<Rightarrow> handler_ref option \<Rightarrow> 'w ws_state \<Rightarrow> 'w ws_state" where
  "off event handler s =
     (case handler of
        None \<Rightarrow> set_empty_array event s
      | Some h \<Rightarrow>
          (case eventHandlers s event of
             None \<Rightarrow> s
           | Some a \<Rightarrow>
               (let handlers = arrays s ! a;
                    index = indexOf h handlers
                in if index > - 1
                   then s\<lparr>arrays := (arrays s)[a := splice1 (nat index) handlers],
                          eventHandlers := (eventHandlers s)(event \<mapsto> a)\<rparr>
                   else s)))"

text \<open>One call that a running subscriber makes on the service.\<close>

fun inner_call :: "bus_call \<Rightarrow> 'w ws_state \<Rightarrow> 'w ws_state" where
  "inner_call (InnerOn event handler) s = fst (on event handler s)"
| "inner_call (InnerOff event handler) s = off event handler s"
| "inner_call (InnerUnsubscribe u) s = call_unsubscribe u s"

text \<open>
  \<open>handler(data)\<close>: the subscriber makes its calls on the service, then returns or
  throws. The call is recorded in \<open>calls\<close> with its outcome.
\<close>

definition call_handler ::
  "'w behaviour \<Rightarrow> string \<Rightarrow> handler_ref \<Rightarrow> json \<Rightarrow> 'w ws_state \<Rightarrow> 'w ws_state may_throw" where
  "call_handler beh event handler data s =
     (let s1 = fold inner_call (fst (beh handler data (world s))) s
      in case snd (beh handler data (world s)) of
           Returns w \<Rightarrow>
             Inr (s1\<lparr>calls := calls s1 @ [(event, handler, data, None)], world := w\<rparr>)
         | Throws e w \<Rightarrow>
             Inl (e, s1\<lparr>calls := calls s1 @ [(event, handler, data, Some e)], world := w\<rparr>))"

text \<open>\<open>emit\<close>: \<open>forEach\<close> runs on the array that is the entry when \<open>emit\<close> starts.\<close>

definition emit :: "'w behaviour \<Rightarrow> string \<Rightarrow> json \<Rightarrow> 'w ws_state \<Rightarrow> 'w ws_state may_throw" where
  "emit beh event data s =
     (let s0 = s\<lparr>emitted := emitted s @ [(event, data)]\<rparr>
      in case eventHandlers s0 event of
           None \<Rightarrow> Inr s0
         | Some a \<Rightarrow>
             forEach (\<lambda>s'. arrays s' ! a)
               (\<lambda>handler s'.
                  try_catch (call_handler beh event handler data s')
                    (\<lambda>error s''.
                       Inr (console_error (''Error in event handler for '' @ event @ '':'')
                              (Some error) s'')))
               s0)"

subsection \<open>Sending and status\<close>

definition isConnected :: "'w ws_state \<Rightarrow> bool" where
  "isConnected s = (ws_readyState s = Some OPEN)"

text \<open>\<open>`Cannot send message '${type}' - WebSocket not connected`\<close>\<close>

definition sendMessage :: "string \<Rightarrow> json \<Rightarrow> 'w ws_state \<Rightarrow> 'w ws_state" where
  "sendMessage type data s =
     (case ws s of
        None \<Rightarrow>
          console_warn (''Cannot send message '' @ [CHR 0x27] @ type @ [CHR 0x27]
                          @ '' - WebSocket not connected'') s
      | Some i \<Rightarrow>
          if readyState (sockets s ! i) \<noteq> OPEN
          then console_warn (''Cannot send message '' @ [CHR 0x27] @ type @ [CHR 0x27]
                               @ '' - WebSocket not connected'') s
          else s\<lparr>sent := sent s @ [(i, type, data)]\<rparr>)"

subsection \<open>\<open>connect\<close>, \<open>disconnect\<close>, \<open>handleReconnect\<close>\<close>

text \<open>The local function \<open>checkConnection\<close> of \<open>connect\<close>, for the promise \<open>p\<close> of
  that call.\<close>

definition checkConnection :: "nat \<Rightarrow> 'w ws_state \<Rightarrow> 'w ws_state" where
  "checkConnection p s =
     (if ws_readyState s = Some OPEN then resolve p True s
      else if \<not> isConnecting s then reject p (JsError ''Connection failed'') s
      else setTimeout (CheckConnection p) 100 s)"

definition startsWith :: "string \<Rightarrow> string \<Rightarrow> bool" where
  "startsWith str pre = (take (length pre) str = pre)"

text \<open>The endpoint \<open>connect\<close> uses; an empty \<open>VITE_WS_URL\<close> is falsy, like a missing
  one.\<close>

definition resolve_wsUrl :: "env \<Rightarrow> string \<Rightarrow> string" where
  "resolve_wsUrl e u =
     (if startsWith u ''ws'' then u
      else (case VITE_WS_URL e of
              Some envWsUrl \<Rightarrow>
                if envWsUrl \<noteq> [] then envWsUrl
                else (if location_protocol e = ''https:'' then ''wss:'' else ''ws:'')
                       @ ''//'' @ location_host e @ ''/ws''
            | None \<Rightarrow>
                (if location_protocol e = ''https:'' then ''wss:'' else ''ws:'')
                  @ ''//'' @ location_host e @ ''/ws''))"

text \<open>
  \<open>connect(url)\<close> returns the promise it creates (its index) and the state after the
  promise executor has run. \<open>connect()\<close> without an argument is \<open>connect ''/''\<close>.
\<close>

definition connect :: "env \<Rightarrow> string \<Rightarrow> 'w ws_state \<Rightarrow> nat \<times> 'w ws_state" where
  "connect e u s0 =
     (let p = length (promises s0);
          s = s0\<lparr>promises := promises s0 @ [Pending]\<rparr>
      in if ws_readyState s = Some OPEN then (p, resolve p True s)
         else if isConnecting s then (p, checkConnection p s)
         else
           (let wsUrl = resolve_wsUrl e u;
                s1 = s\<lparr>isConnecting := True, url := wsUrl\<rparr>
            in case WebSocket_throws e wsUrl of
                 Some error \<Rightarrow> (p, reject p error (s1\<lparr>isConnecting := False\<rparr>))
               | None \<Rightarrow>
                   (p, s1\<lparr>sockets := sockets s1 @
                              [\<lparr>sock_url = wsUrl, readyState = CONNECTING, settles = p,
                                close_fired = False\<rparr>],
                           ws := Some (length (sockets s1))\<rparr>)))"

definition disconnect :: "'w ws_state \<Rightarrow> 'w ws_state" where
  "disconnect s =
     (let s1 = (case ws s of None \<Rightarrow> s | Some i \<Rightarrow> (socket_close i s)\<lparr>ws := None\<rparr>)
      in s1\<lparr>eventHandlers := Map.empty\<rparr>)"

definition handleReconnect :: "'w behaviour \<Rightarrow> 'w ws_state \<Rightarrow> 'w ws_state may_throw" where
  "handleReconnect beh s =
     (if reconnectAttempts s \<ge> maxReconnectAttempts
      then emit beh ''connection_failed''
             (JObj [(''attempts'', JNum (int (reconnectAttempts s)))])
             (console_error ''Max reconnection attempts reached'' None s)
      else
        (let s1 = s\<lparr>reconnectAttempts := reconnectAttempts s + 1\<rparr>;
             delay = reconnectDelay * 2 ^ (reconnectAttempts s1 - 1)
         in Inr (setTimeout Reconnect delay s1)))"

subsection \<open>The listeners \<open>connect\<close> puts on a socket\<close>

text \<open>\<open>i\<close> is the socket the listener belongs to; \<open>now\<close> is \<open>new Date().toISOString()\<close>.\<close>

definition ws_onopen ::
  "'w behaviour \<Rightarrow> nat \<Rightarrow> string \<Rightarrow> 'w ws_state \<Rightarrow> 'w ws_state may_throw" where
  "ws_onopen beh i now s =
     (let s1 = s\<lparr>isConnecting := False, reconnectAttempts := 0\<rparr>
      in case emit beh ''connection_status'' (JObj [(''connected'', JBool True)]) s1 of
           Inl err \<Rightarrow> Inl err
         | Inr s2 \<Rightarrow>
             (let s3 = sendMessage ''ping'' (JObj [(''timestamp'', JStr now)]) s2
              in Inr (resolve (settles (sockets s3 ! i)) True s3)))"

definition ws_onclose ::
  "'w behaviour \<Rightarrow> nat \<Rightarrow> nat \<Rightarrow> string \<Rightarrow> 'w ws_state \<Rightarrow> 'w ws_state may_throw" where
  "ws_onclose beh i code reason s =
     (let s1 = s\<lparr>isConnecting := False\<rparr>
      in case emit beh ''connection_status''
                (JObj [(''connected'', JBool False), (''reason'', JStr reason)]) s1 of
           Inl err \<Rightarrow> Inl err
         | Inr s2 \<Rightarrow> if code \<noteq> 1000 then handleReconnect beh s2 else Inr s2)"

definition ws_onerror :: "nat \<Rightarrow> 'w ws_state \<Rightarrow> 'w ws_state" where
  "ws_onerror i s =
     (let s1 = console_error ''WebSocket error occurred:'' None s;
          s2 = s1\<lparr>isConnecting := False\<rparr>
      in setTimeout (RejectIfNotOpen (settles (sockets s2 ! i))) 2000 s2)"

subsection \<open>Timer callbacks\<close>

definition run_callback :: "env \<Rightarrow> callback \<Rightarrow> 'w ws_state \<Rightarrow> 'w ws_state" where
  "run_callback e cb s =
     (case cb of
        Reconnect \<Rightarrow>
          if ws s = None \<or> ws_readyState s = Some CLOSED then snd (connect e (url s) s) else s
      | CheckConnection p \<Rightarrow> checkConnection p s
      | RejectIfNotOpen p \<Rightarrow>
          if ws_readyState s \<noteq> Some OPEN
          then reject p (JsError ''Backend not available - running in offline mode'') s
          else s)"

subsection \<open>Executions\<close>

text \<open>
  What can happen to the service: a caller invokes a public method, the browser fires
  an event of a socket (it sets the socket's \<open>readyState\<close> first), or a scheduled
  callback comes due. An event of a socket needs that socket to exist, an open event
  needs it to be connecting, and a socket's close event fires once. \<open>step\<close> is \<open>None\<close>
  when the event cannot happen in the state, or when a listener lets an exception
  escape.
\<close>

datatype event =
  CallConnect string
| CallDisconnect
| CallOn string handler_ref
| CallOff string "handler_ref option"
| CallUnsubscribe unsubscribe
| SocketOpen nat string
| SocketError nat
| SocketClose nat nat string
| TimerDue nat

definition set_readyState :: "nat \<Rightarrow> readyState \<Rightarrow> 'w ws_state \<Rightarrow> 'w ws_state" where
  "set_readyState i r s = s\<lparr>sockets := (sockets s)[i := (sockets s ! i)\<lparr>readyState := r\<rparr>]\<rparr>"

definition returned :: "'s may_throw \<Rightarrow> 's option" where
  "returned r = (case r of Inl err \<Rightarrow> None | Inr s \<Rightarrow> Some s)"

fun step :: "env \<Rightarrow> 'w behaviour \<Rightarrow> event \<Rightarrow> 'w ws_state \<Rightarrow> 'w ws_state option" where
  "step e beh (CallConnect u) s = Some (snd (connect e u s))"
| "step e beh CallDisconnect s = Some (disconnect s)"
| "step e beh (CallOn ev h) s = Some (fst (on ev h s))"
| "step e beh (CallOff ev h) s = Some (off ev h s)"
| "step e beh (CallUnsubscribe u) s = Some (call_unsubscribe u s)"
| "step e beh (SocketOpen i now) s =
     (if i < length (sockets s) \<and> readyState (sockets s ! i) = CONNECTING
      then returned (ws_onopen beh i now (set_readyState i OPEN s))
      else None)"
| "step e beh (SocketError i) s =
     (if i < length (sockets s) \<and> \<not> close_fired (sockets s ! i)
      then Some (ws_onerror i (set_readyState i CLOSED s))
      else None)"
| "step e beh (SocketClose i code reason) s =
     (if i < length (sockets s) \<and> \<not> close_fired (sockets s ! i)
      then returned (ws_onclose beh i code reason
             (s\<lparr>sockets := (sockets s)[i := (sockets s ! i)\<lparr>readyState := CLOSED,
                                                           close_fired := True\<rparr>]\<rparr>))
      else None)"
| "step e beh (TimerDue k) s =
     (if k < length (timeouts s)
      then Some (run_callback e (snd (timeouts s ! k))
                   (s\<lparr>timeouts := take k (timeouts s) @ drop (Suc k) (timeouts s)\<rparr>))
      else None)"

fun run :: "env \<Rightarrow> 'w behaviour \<Rightarrow> event list \<Rightarrow> 'w ws_state \<Rightarrow> 'w ws_state option" where
  "run e beh [] s = Some s"
| "run e beh (ev # evs) s = (case step e beh ev s of None \<Rightarrow> None | Some s' \<Rightarrow> run e beh evs s')"

subsection \<open>Notions used to state the properties of the event bus\<close>

text \<open>How a call of a subscriber ends: the consumer's state then, and the error thrown,
  if any.\<close>

definition world_after :: "'w completion \<Rightarrow> 'w" where
  "world_after r = (case r of Returns w \<Rightarrow> w | Throws e w \<Rightarrow> w)"

definition thrown :: "'w completion \<Rightarrow> js_error option" where
  "thrown r = (case r of Returns w \<Rightarrow> None | Throws e w \<Rightarrow> Some e)"

text \<open>
  What it means that the handlers \<open>hs\<close> are invoked with \<open>data\<close>, each once, in the
  order of the list, starting with the consumer's state \<open>w\<close>: the outcome of each call
  (the error it throws, if any) and the consumer's state after the last call. This is
  written from the subscribers' behaviour alone.
\<close>

fun invoke_in_order ::
  "'w behaviour \<Rightarrow> json \<Rightarrow> handler_ref list \<Rightarrow> 'w \<Rightarrow> js_error option list \<times> 'w" where
  "invoke_in_order beh data [] w = ([], w)"
| "invoke_in_order beh data (h # hs) w =
     (let r = snd (beh h data w);
          rest = invoke_in_order beh data hs (world_after r)
      in (thrown r # fst rest, snd rest))"



definition error_lines :: "string \<Rightarrow> js_error option list \<Rightarrow> console_entry list" where
  "error_lines event rs =
     concat (map (\<lambda>r. case r of None \<Rightarrow> []
        | Some e \<Rightarrow> [Console_error (''Error in event handler for '' @ event @ '':'') (Some e)]) rs)"



text \<open>
  The store of handler arrays is well formed when every entry of \<open>eventHandlers\<close> is an
  address of the store and no two event types share an array. This holds in a new
  service and is kept by every method (lemma \<open>wf_bus_run\<close> below).
\<close>

definition wf_bus :: "'w ws_state \<Rightarrow> bool" where
  "wf_bus s =
     ((\<forall>ev a. eventHandlers s ev = Some a \<longrightarrow> a < length (arrays s))
      \<and> (\<forall>ev ev' a. eventHandlers s ev = Some a \<and> eventHandlers s ev' = Some a \<longrightarrow> ev = ev'))"


text \<open>Everything but the subscriptions, the logs and the consumer's state is the
  same in both states.\<close>

definition same_session :: "'w ws_state \<Rightarrow> 'w ws_state \<Rightarrow> bool" where
  "same_session s s' =
     (ws s' = ws s \<and> reconnectAttempts s' = reconnectAttempts s
      \<and> isConnecting s' = isConnecting s \<and> url s' = url s \<and> sockets s' = sockets s
      \<and> promises s' = promises s \<and> timeouts s' = timeouts s \<and> sent s' = sent s)"

text \<open>The body of the \<open>forEach\<close> in \<open>emit\<close>: one handler call inside its \<open>try\<close>/\<open>catch\<close>.\<close>

definition dispatch_one ::
  "'w behaviour \<Rightarrow> string \<Rightarrow> json \<Rightarrow> handler_ref \<Rightarrow> 'w ws_state \<Rightarrow> 'w ws_state may_throw" where
  "dispatch_one beh event data =
     (\<lambda>handler s'.
        try_catch (call_handler beh event handler data s')
          (\<lambda>error s''.
             Inr (console_error (''Error in event handler for '' @ event @ '':'')
                    (Some error) s'')))"


subsection \<open>Example values\<close>

text \<open>The two messages of the spec's scenario, and updates that carry no field.\<close>

definition m1 :: ChatMessage where
  "m1 = \<lparr> msg_id = ''m1'', msg_type = User, msg_content = Text ''hi'',
           msg_agentId = None, msg_timestamp = 0, msg_metadata = None \<rparr>"

definition m2 :: ChatMessage where
  "m2 = \<lparr> msg_id = ''m2'', msg_type = Agent, msg_content = Text ''hello'',
           msg_agentId = None, msg_timestamp = 1, msg_metadata = None \<rparr>"

definition no_message_updates :: ChatMessage_partial where
  "no_message_updates =
     \<lparr> pmsg_id = None, pmsg_type = None, pmsg_content = None,
       pmsg_agentId = None, pmsg_timestamp = None, pmsg_metadata = None \<rparr>"

definition no_server_updates :: MCPServer_partial where
  "no_server_updates =
     \<lparr> psrv_id = None, psrv_name = None, psrv_type = None, psrv_status = None,
       psrv_version = None, psrv_description = None, psrv_capabilities = None,
       psrv_health = None, psrv_config = None, psrv_stats = None \<rparr>"

definition no_evolution_updates :: EvolutionState_partial where
  "no_evolution_updates =
     \<lparr> p_isRunning = None, p_currentGeneration = None, p_maxGenerations = None,
       p_populationSize = None, p_bestRecipes = None, p_fitnessHistory = None,
       p_convergenceMetrics = None, p_elapsedTime = None \<rparr>"

definition example_server :: "string \<Rightarrow> MCPServer" where
  "example_server sid =
     \<lparr> srv_id = sid, srv_name = ''files'', srv_type = FILESYSTEM, srv_status = RUNNING,
       srv_version = ''1.0'', srv_description = ''file access'', srv_capabilities = [''read''],
       srv_health = \<lparr> h_status = Healthy, h_last_check = 0, h_response_time = 5,
                      h_error_message = None, h_uptime = 60 \<rparr>,
       srv_config = \<lparr> cfg_command = [''serve''], cfg_environment = [],
                      cfg_working_directory = None, cfg_auto_restart = True,
                      cfg_max_restarts = 3, cfg_timeout = 30 \<rparr>,
       srv_stats = \<lparr> st_requests_total = 0, st_requests_success = 0, st_requests_error = 0,
                     st_average_response_time = 0, st_last_request = 0,
                     st_memory_usage = 0 \<rparr> \<rparr>"

definition two_servers :: AppState where
  "two_servers = initialState\<lparr>mcpServers := [example_server ''a'', example_server ''b'']\<rparr>"

definition two_messages :: AppState where
  "two_messages = initialState\<lparr>conversations := [''default'' \<mapsto> [m1, m2]]\<rparr>"

text \<open>
  For the transport session: subscribers that never throw and call nothing, a page
  served from \<open>http://localhost:3000\<close> where the \<open>WebSocket\<close> constructor never throws,
  and some executions from a fresh service.
\<close>

definition quiet :: "unit behaviour" where
  "quiet = (\<lambda>h d w. ([], Returns w))"

definition env0 :: env where
  "env0 = \<lparr> VITE_WS_URL = None, location_protocol = ''http:'',
            location_host = ''localhost:3000'', WebSocket_throws = (\<lambda>u. None) \<rparr>"

definition unclean_close_trace :: "event list" where
  "unclean_close_trace =
     [CallConnect ''ws://host/ws'', SocketOpen 0 ''t0'', SocketClose 0 1006 []]"

definition after_unclean_close :: "unit ws_state" where
  "after_unclean_close = the (run env0 quiet unclean_close_trace (new_WebSocketService ()))"

definition open_session :: "unit ws_state" where
  "open_session =
     the (run env0 quiet [CallConnect ''/'', SocketOpen 0 ''t0''] (new_WebSocketService ()))"

definition six_failures :: "event list" where
  "six_failures =
     [CallConnect ''ws://host/ws'', SocketClose 0 1006 [], TimerDue 0,
      SocketClose 1 1006 [], TimerDue 0, SocketClose 2 1006 [], TimerDue 0,
      SocketClose 3 1006 [], TimerDue 0, SocketClose 4 1006 [], TimerDue 0,
      SocketClose 5 1006 []]"

definition exhausted :: "unit ws_state" where
  "exhausted = the (run env0 quiet (butlast six_failures) (new_WebSocketService ()))"











section \<open>Properties of the store\<close>

subsection \<open>Helper lemmas\<close>

lemma get_or_empty_upd_same: "get_or_empty (m(k \<mapsto> xs)) k = xs"
  by (simp add: get_or_empty_def)

lemma get_or_empty_upd_other: "c \<noteq> k \<Longrightarrow> get_or_empty (m(k \<mapsto> xs)) c = get_or_empty m c"
  by (simp add: get_or_empty_def)

lemma addMessage_eq:
  "addMessage cid m s =
     s\<lparr>conversations := (conversations s)(cid \<mapsto> get_or_empty (conversations s) cid @ [m])\<rparr>"
  by (simp add: addMessage_def Let_def)

lemma fold_addMessage_eq:
  "fold (addMessage cid) (m # ms) s =
     s\<lparr>conversations := (conversations s)(cid \<mapsto> get_or_empty (conversations s) cid @ m # ms)\<rparr>"
proof (induction ms arbitrary: s m)
  case Nil
  have "fold (addMessage cid) [m] s = addMessage cid m s" by simp
  also have "\<dots> = s\<lparr>conversations :=
      (conversations s)(cid \<mapsto> get_or_empty (conversations s) cid @ [m])\<rparr>"
    by (rule addMessage_eq)
  finally show ?case .
next
  case (Cons a ms)
  have "fold (addMessage cid) (m # a # ms) s = fold (addMessage cid) (a # ms) (addMessage cid m s)"
    by simp
  also have "\<dots> = (addMessage cid m s)\<lparr>conversations :=
      (conversations (addMessage cid m s))(cid \<mapsto>
         get_or_empty (conversations (addMessage cid m s)) cid @ a # ms)\<rparr>"
    by (rule Cons.IH)
  also have "\<dots> = s\<lparr>conversations :=
      (conversations s)(cid \<mapsto> get_or_empty (conversations s) cid @ m # a # ms)\<rparr>"
    unfolding addMessage_eq [of cid m s] by (simp add: get_or_empty_upd_same)
  finally show ?case .
qed

lemma updateMessage_eq:
  "updateMessage cid mid u s =
     s\<lparr>conversations := (conversations s)(cid \<mapsto>
        map (\<lambda>msg. if msg_id msg = mid then spread_ChatMessage msg u else msg)
          (get_or_empty (conversations s) cid))\<rparr>"
  by (simp add: updateMessage_def Let_def)

lemma map_if_absent_id:
  "\<forall>x \<in> set xs. key x \<noteq> k \<Longrightarrow> map (\<lambda>x. if key x = k then f x else x) xs = xs"
  by (induction xs) auto

lemma spread_ChatMessage_fields:
  "msg_id (spread_ChatMessage msg u) = (case pmsg_id u of None \<Rightarrow> msg_id msg | Some v \<Rightarrow> v)
   \<and> msg_type (spread_ChatMessage msg u) = (case pmsg_type u of None \<Rightarrow> msg_type msg | Some v \<Rightarrow> v)
   \<and> msg_content (spread_ChatMessage msg u)
       = (case pmsg_content u of None \<Rightarrow> msg_content msg | Some v \<Rightarrow> v)
   \<and> msg_agentId (spread_ChatMessage msg u)
       = (case pmsg_agentId u of None \<Rightarrow> msg_agentId msg | Some v \<Rightarrow> Some v)
   \<and> msg_timestamp (spread_ChatMessage msg u)
       = (case pmsg_timestamp u of None \<Rightarrow> msg_timestamp msg | Some v \<Rightarrow> v)
   \<and> msg_metadata (spread_ChatMessage msg u)
       = (case pmsg_metadata u of None \<Rightarrow> msg_metadata msg | Some v \<Rightarrow> Some v)"
  by (simp add: spread_ChatMessage_def overlay_def overlay_opt_def)

lemma spread_MCPServer_fields:
  "srv_id (spread_MCPServer srv u) = (case psrv_id u of None \<Rightarrow> srv_id srv | Some v \<Rightarrow> v)
   \<and> srv_name (spread_MCPServer srv u) = (case psrv_name u of None \<Rightarrow> srv_name srv | Some v \<Rightarrow> v)
   \<and> srv_type (spread_MCPServer srv u) = (case psrv_type u of None \<Rightarrow> srv_type srv | Some v \<Rightarrow> v)
   \<and> srv_status (spread_MCPServer srv u)
       = (case psrv_status u of None \<Rightarrow> srv_status srv | Some v \<Rightarrow> v)
   \<and> srv_version (spread_MCPServer srv u)
       = (case psrv_version u of None \<Rightarrow> srv_version srv | Some v \<Rightarrow> v)
   \<and> srv_description (spread_MCPServer srv u)
       = (case psrv_description u of None \<Rightarrow> srv_description srv | Some v \<Rightarrow> v)
   \<and> srv_capabilities (spread_MCPServer srv u)
       = (case psrv_capabilities u of None \<Rightarrow> srv_capabilities srv | Some v \<Rightarrow> v)
   \<and> srv_health (spread_MCPServer srv u)
       = (case psrv_health u of None \<Rightarrow> srv_health srv | Some v \<Rightarrow> v)
   \<and> srv_config (spread_MCPServer srv u)
       = (case psrv_config u of None \<Rightarrow> srv_config srv | Some v \<Rightarrow> v)
   \<and> srv_stats (spread_MCPServer srv u)
       = (case psrv_stats u of None \<Rightarrow> srv_stats srv | Some v \<Rightarrow> v)"
  by (simp add: spread_MCPServer_def overlay_def)

subsection \<open>Appending messages\<close>

text \<open>
  C4. For every conversation id \<open>cid\<close>, every store state \<open>s\<close> and every finite sequence
  \<open>ms\<close> of messages, after \<open>addMessage(cid, m)\<close> has been called for each \<open>m\<close> of \<open>ms\<close>
  in order, the message list of \<open>cid\<close> is its previous contents (empty if the
  conversation was absent) followed by \<open>ms\<close> in call order; if at least one call was made
  the conversation exists; every other conversation and every other field of the store is
  as before.
\<close>

theorem addMessage_sequence_appends:
  fixes s :: "'z AppState_scheme"
  shows
  "get_or_empty (conversations (fold (addMessage cid) ms s)) cid
      = get_or_empty (conversations s) cid @ ms
   \<and> (ms \<noteq> [] \<longrightarrow> conversations (fold (addMessage cid) ms s) cid
        = Some (get_or_empty (conversations s) cid @ ms))
   \<and> (\<forall>c. c \<noteq> cid \<longrightarrow> conversations (fold (addMessage cid) ms s) c = conversations s c)
   \<and> fold (addMessage cid) ms s
        = s\<lparr>conversations := conversations (fold (addMessage cid) ms s)\<rparr>"
proof (cases ms)
  case Nil
  then show ?thesis by simp
next
  case (Cons m ms')
  show ?thesis
    unfolding Cons fold_addMessage_eq
    by (simp add: get_or_empty_upd_same)
qed

theorem addMessage_sequence_appends_witness:
  "conversations (fold (addMessage ''default'') [m1, m2] initialState) ''default'' = Some [m1, m2]
   \<and> conversations (fold (addMessage ''default'') [m1, m2] initialState) ''other'' = None
   \<and> conversations (fold (addMessage ''new'') [m1, m2] initialState) ''new'' = Some [m1, m2]
   \<and> conversations (fold (addMessage ''new'') [m1, m2] initialState) ''default'' = Some []"
  using addMessage_sequence_appends [of "''default''" "[m1, m2]" initialState]
    addMessage_sequence_appends [of "''new''" "[m1, m2]" initialState]
  by (simp add: initialState_def get_or_empty_def)

subsection \<open>Updating a message by id\<close>

text \<open>
  The claim C8 as stated fails: in the initial store there is no conversation \<open>c2\<close>, hence
  no message with id \<open>m1\<close> in it, and yet \<open>updateMessage('c2', 'm1', {})\<close> changes the
  store (it inserts an empty conversation \<open>c2\<close>).
\<close>

theorem updateMessage_absent_conversation_counterexample:
  "conversations initialState ''c2'' = None
   \<and> updateMessage ''c2'' ''m1'' no_message_updates initialState \<noteq> initialState"
proof -
  have a: "conversations initialState ''c2'' = None"
    by (simp add: initialState_def)
  have b: "conversations (updateMessage ''c2'' ''m1'' no_message_updates initialState) ''c2''
            = Some []"
    by (simp add: updateMessage_eq get_or_empty_def initialState_def)
  from a b have "updateMessage ''c2'' ''m1'' no_message_updates initialState \<noteq> initialState"
    by (metis option.distinct(1))
  with a show ?thesis by simp
qed

text \<open>
  C8, amended. \<open>updateMessage(cid, mid, u)\<close> keeps the length and order of the
  conversation's message list; every message whose id is \<open>mid\<close> is replaced by its
  spread with \<open>u\<close>, in which each field present in \<open>u\<close> has the value from \<open>u\<close> and each
  absent field keeps its old value; every other message, every other conversation and
  every other field of the store is unchanged. If the conversation exists and holds no
  message with id \<open>mid\<close>, the store is unchanged. If the conversation does not exist, the
  call inserts an empty message list for \<open>cid\<close> and changes nothing else.
\<close>

theorem updateMessage_merges_by_id:
  fixes s :: "'z AppState_scheme"
  shows
  "length (get_or_empty (conversations (updateMessage cid mid u s)) cid)
      = length (get_or_empty (conversations s) cid)
   \<and> (\<forall>i < length (get_or_empty (conversations s) cid).
        get_or_empty (conversations (updateMessage cid mid u s)) cid ! i
          = (if msg_id (get_or_empty (conversations s) cid ! i) = mid
             then spread_ChatMessage (get_or_empty (conversations s) cid ! i) u
             else get_or_empty (conversations s) cid ! i))
   \<and> (\<forall>msg.
        msg_id (spread_ChatMessage msg u) = (case pmsg_id u of None \<Rightarrow> msg_id msg | Some v \<Rightarrow> v)
        \<and> msg_type (spread_ChatMessage msg u)
            = (case pmsg_type u of None \<Rightarrow> msg_type msg | Some v \<Rightarrow> v)
        \<and> msg_content (spread_ChatMessage msg u)
            = (case pmsg_content u of None \<Rightarrow> msg_content msg | Some v \<Rightarrow> v)
        \<and> msg_agentId (spread_ChatMessage msg u)
            = (case pmsg_agentId u of None \<Rightarrow> msg_agentId msg | Some v \<Rightarrow> Some v)
        \<and> msg_timestamp (spread_ChatMessage msg u)
            = (case pmsg_timestamp u of None \<Rightarrow> msg_timestamp msg | Some v \<Rightarrow> v)
        \<and> msg_metadata (spread_ChatMessage msg u)
            = (case pmsg_metadata u of None \<Rightarrow> msg_metadata msg | Some v \<Rightarrow> Some v))
   \<and> (\<forall>c. c \<noteq> cid \<longrightarrow> conversations (updateMessage cid mid u s) c = conversations s c)
   \<and> updateMessage cid mid u s = s\<lparr>conversations := conversations (updateMessage cid mid u s)\<rparr>
   \<and> (\<forall>ms. conversations s cid = Some ms \<and> (\<forall>msg \<in> set ms. msg_id msg \<noteq> mid)
        \<longrightarrow> updateMessage cid mid u s = s)
   \<and> (conversations s cid = None
        \<longrightarrow> updateMessage cid mid u s = s\<lparr>conversations := (conversations s)(cid \<mapsto> [])\<rparr>)"
proof (intro conjI allI impI)
  show "length (get_or_empty (conversations (updateMessage cid mid u s)) cid)
      = length (get_or_empty (conversations s) cid)"
    by (simp add: updateMessage_eq get_or_empty_def)
next
  fix i assume "i < length (get_or_empty (conversations s) cid)"
  then show "get_or_empty (conversations (updateMessage cid mid u s)) cid ! i
          = (if msg_id (get_or_empty (conversations s) cid ! i) = mid
             then spread_ChatMessage (get_or_empty (conversations s) cid ! i) u
             else get_or_empty (conversations s) cid ! i)"
    unfolding updateMessage_eq [of cid mid u s] by (simp add: get_or_empty_def)
next
  fix c assume "c \<noteq> cid"
  then show "conversations (updateMessage cid mid u s) c = conversations s c"
    by (simp add: updateMessage_eq)
next
  show "updateMessage cid mid u s = s\<lparr>conversations := conversations (updateMessage cid mid u s)\<rparr>"
    by (simp add: updateMessage_eq)
next
  fix ms assume h: "conversations s cid = Some ms \<and> (\<forall>msg \<in> set ms. msg_id msg \<noteq> mid)"
  then have "map (\<lambda>msg. if msg_id msg = mid then spread_ChatMessage msg u else msg) ms = ms"
    by (simp add: map_if_absent_id)
  with h have "(conversations s)(cid \<mapsto>
        map (\<lambda>msg. if msg_id msg = mid then spread_ChatMessage msg u else msg)
          (get_or_empty (conversations s) cid)) = conversations s"
    by (simp add: get_or_empty_def map_upd_triv)
  then show "updateMessage cid mid u s = s"
    unfolding updateMessage_eq [of cid mid u s] by simp
next
  assume "conversations s cid = None"
  then show "updateMessage cid mid u s = s\<lparr>conversations := (conversations s)(cid \<mapsto> [])\<rparr>"
    unfolding updateMessage_eq [of cid mid u s] by (simp add: get_or_empty_def)
qed (simp_all add: spread_ChatMessage_fields)

theorem updateMessage_merges_by_id_witness:
  "conversations (updateMessage ''default'' ''m1''
       (no_message_updates\<lparr>pmsg_content := Some (Text ''edited'')\<rparr>) two_messages) ''default''
     = Some [m1\<lparr>msg_content := Text ''edited''\<rparr>, m2]
   \<and> updateMessage ''default'' ''m9''
       (no_message_updates\<lparr>pmsg_content := Some (Text ''edited'')\<rparr>) two_messages = two_messages
   \<and> updateMessage ''c2'' ''m1'' no_message_updates two_messages
     = two_messages\<lparr>conversations := (conversations two_messages)(''c2'' \<mapsto> [])\<rparr>"
proof -
  let ?u = "no_message_updates\<lparr>pmsg_content := Some (Text ''edited'')\<rparr>"
  note t1 = updateMessage_merges_by_id [of "''default''" "''m1''" ?u two_messages]
  note t2 = updateMessage_merges_by_id [of "''default''" "''m9''" ?u two_messages]
  note t3 = updateMessage_merges_by_id [of "''c2''" "''m1''" no_message_updates two_messages]
  have c: "conversations two_messages ''default'' = Some [m1, m2]"
    by (simp add: two_messages_def)
  have a: "conversations (updateMessage ''default'' ''m1'' ?u two_messages) ''default''
     = Some [m1\<lparr>msg_content := Text ''edited''\<rparr>, m2]"
    using t1 by (simp add: updateMessage_eq two_messages_def get_or_empty_def
        spread_ChatMessage_def overlay_def overlay_opt_def no_message_updates_def m1_def m2_def)
  have "\<forall>msg \<in> set [m1, m2]. msg_id msg \<noteq> ''m9''"
    by (simp add: m1_def m2_def)
  with c t2 have b: "updateMessage ''default'' ''m9'' ?u two_messages = two_messages"
    by blast
  have "conversations two_messages ''c2'' = None"
    by (simp add: two_messages_def initialState_def)
  with t3 have d: "updateMessage ''c2'' ''m1'' no_message_updates two_messages
     = two_messages\<lparr>conversations := (conversations two_messages)(''c2'' \<mapsto> [])\<rparr>"
    by blast
  from a b d show ?thesis by blast
qed

subsection \<open>Updating one server of the registry\<close>

text \<open>
  The claim C3 as stated fails: the initial registry is empty, and after
  \<open>updateMCPServer('srv-1', {status: 'running'})\<close> it is still empty, so no record for the
  unknown id was inserted.
\<close>

theorem updateMCPServer_unknown_id_counterexample:
  "mcpServers (updateMCPServer ''srv-1'' (no_server_updates\<lparr>psrv_status := Some RUNNING\<rparr>)
      initialState) = []"
  by (simp add: updateMCPServer_def initialState_def)

text \<open>
  C3, amended. \<open>updateMCPServer(sid, u)\<close> keeps the length and order of the registry;
  every record whose id is \<open>sid\<close> is replaced by its spread with \<open>u\<close>, in which each field
  present in \<open>u\<close> has the value from \<open>u\<close> and each absent field keeps its old value; every
  other record and every other field of the store is unchanged. If no record has id
  \<open>sid\<close>, the store is unchanged: nothing is inserted.
\<close>

theorem updateMCPServer_merges_known_ids_only:
  fixes s :: "'z AppState_scheme"
  shows
  "length (mcpServers (updateMCPServer sid u s)) = length (mcpServers s)
   \<and> (\<forall>i < length (mcpServers s).
        mcpServers (updateMCPServer sid u s) ! i
          = (if srv_id (mcpServers s ! i) = sid then spread_MCPServer (mcpServers s ! i) u
             else mcpServers s ! i))
   \<and> (\<forall>srv.
        srv_id (spread_MCPServer srv u) = (case psrv_id u of None \<Rightarrow> srv_id srv | Some v \<Rightarrow> v)
        \<and> srv_name (spread_MCPServer srv u)
            = (case psrv_name u of None \<Rightarrow> srv_name srv | Some v \<Rightarrow> v)
        \<and> srv_type (spread_MCPServer srv u)
            = (case psrv_type u of None \<Rightarrow> srv_type srv | Some v \<Rightarrow> v)
        \<and> srv_status (spread_MCPServer srv u)
            = (case psrv_status u of None \<Rightarrow> srv_status srv | Some v \<Rightarrow> v)
        \<and> srv_version (spread_MCPServer srv u)
            = (case psrv_version u of None \<Rightarrow> srv_version srv | Some v \<Rightarrow> v)
        \<and> srv_description (spread_MCPServer srv u)
            = (case psrv_description u of None \<Rightarrow> srv_description srv | Some v \<Rightarrow> v)
        \<and> srv_capabilities (spread_MCPServer srv u)
            = (case psrv_capabilities u of None \<Rightarrow> srv_capabilities srv | Some v \<Rightarrow> v)
        \<and> srv_health (spread_MCPServer srv u)
            = (case psrv_health u of None \<Rightarrow> srv_health srv | Some v \<Rightarrow> v)
        \<and> srv_config (spread_MCPServer srv u)
            = (case psrv_config u of None \<Rightarrow> srv_config srv | Some v \<Rightarrow> v)
        \<and> srv_stats (spread_MCPServer srv u)
            = (case psrv_stats u of None \<Rightarrow> srv_stats srv | Some v \<Rightarrow> v))
   \<and> updateMCPServer sid u s = s\<lparr>mcpServers := mcpServers (updateMCPServer sid u s)\<rparr>
   \<and> ((\<forall>srv \<in> set (mcpServers s). srv_id srv \<noteq> sid) \<longrightarrow> updateMCPServer sid u s = s)"
proof (intro conjI allI impI)
  show "length (mcpServers (updateMCPServer sid u s)) = length (mcpServers s)"
    by (simp add: updateMCPServer_def)
next
  fix i assume "i < length (mcpServers s)"
  then show "mcpServers (updateMCPServer sid u s) ! i
          = (if srv_id (mcpServers s ! i) = sid then spread_MCPServer (mcpServers s ! i) u
             else mcpServers s ! i)"
    by (simp add: updateMCPServer_def)
next
  show "updateMCPServer sid u s = s\<lparr>mcpServers := mcpServers (updateMCPServer sid u s)\<rparr>"
    by (simp add: updateMCPServer_def)
next
  assume "\<forall>srv \<in> set (mcpServers s). srv_id srv \<noteq> sid"
  then have "map (\<lambda>server. if srv_id server = sid then spread_MCPServer server u else server)
               (mcpServers s) = mcpServers s"
    by (rule map_if_absent_id)
  then show "updateMCPServer sid u s = s"
    by (simp add: updateMCPServer_def)
qed (simp_all add: spread_MCPServer_fields)

theorem updateMCPServer_merges_known_ids_only_witness:
  "mcpServers (updateMCPServer ''a'' (no_server_updates\<lparr>psrv_status := Some STOPPED\<rparr>)
       two_servers)
     = [(example_server ''a'')\<lparr>srv_status := STOPPED\<rparr>, example_server ''b'']
   \<and> updateMCPServer ''c'' (no_server_updates\<lparr>psrv_status := Some STOPPED\<rparr>) two_servers
     = two_servers"
proof -
  let ?u = "no_server_updates\<lparr>psrv_status := Some STOPPED\<rparr>"
  note t1 = updateMCPServer_merges_known_ids_only [of "''a''" ?u two_servers]
  note t2 = updateMCPServer_merges_known_ids_only [of "''c''" ?u two_servers]
  have a: "mcpServers (updateMCPServer ''a'' ?u two_servers)
     = [(example_server ''a'')\<lparr>srv_status := STOPPED\<rparr>, example_server ''b'']"
    using t1 by (simp add: updateMCPServer_def two_servers_def spread_MCPServer_def
        overlay_def no_server_updates_def example_server_def)
  have "\<forall>srv \<in> set (mcpServers two_servers). srv_id srv \<noteq> ''c''"
    by (simp add: two_servers_def example_server_def)
  with t2 have b: "updateMCPServer ''c'' ?u two_servers = two_servers"
    by blast
  from a b show ?thesis by blast
qed

subsection \<open>Merging into the evolution snapshot\<close>

text \<open>
  C9. \<open>updateEvolutionState(u)\<close> is a shallow merge: each top-level field of the
  evolution snapshot that is present in \<open>u\<close> takes the value from \<open>u\<close>, each field absent
  from \<open>u\<close> keeps its previous value, and no other field of the store changes. So an
  update that carries only \<open>currentGeneration = 3\<close> leaves \<open>maxGenerations\<close> as it was.
\<close>

theorem updateEvolutionState_shallow_merge:
  fixes s :: "'z AppState_scheme"
  shows
  "isRunning (evolutionState (updateEvolutionState u s))
      = (case p_isRunning u of None \<Rightarrow> isRunning (evolutionState s) | Some v \<Rightarrow> v)
   \<and> currentGeneration (evolutionState (updateEvolutionState u s))
      = (case p_currentGeneration u of None \<Rightarrow> currentGeneration (evolutionState s) | Some v \<Rightarrow> v)
   \<and> maxGenerations (evolutionState (updateEvolutionState u s))
      = (case p_maxGenerations u of None \<Rightarrow> maxGenerations (evolutionState s) | Some v \<Rightarrow> v)
   \<and> populationSize (evolutionState (updateEvolutionState u s))
      = (case p_populationSize u of None \<Rightarrow> populationSize (evolutionState s) | Some v \<Rightarrow> v)
   \<and> bestRecipes (evolutionState (updateEvolutionState u s))
      = (case p_bestRecipes u of None \<Rightarrow> bestRecipes (evolutionState s) | Some v \<Rightarrow> v)
   \<and> fitnessHistory (evolutionState (updateEvolutionState u s))
      = (case p_fitnessHistory u of None \<Rightarrow> fitnessHistory (evolutionState s) | Some v \<Rightarrow> v)
   \<and> convergenceMetrics (evolutionState (updateEvolutionState u s))
      = (case p_convergenceMetrics u of None \<Rightarrow> convergenceMetrics (evolutionState s)
         | Some v \<Rightarrow> v)
   \<and> elapsedTime (evolutionState (updateEvolutionState u s))
      = (case p_elapsedTime u of None \<Rightarrow> elapsedTime (evolutionState s) | Some v \<Rightarrow> v)
   \<and> updateEvolutionState u s
      = s\<lparr>evolutionState := evolutionState (updateEvolutionState u s)\<rparr>"
  by (simp add: updateEvolutionState_def spread_EvolutionState_def overlay_def)

theorem updateEvolutionState_shallow_merge_witness:
  "currentGeneration (evolutionState
      (updateEvolutionState (no_evolution_updates\<lparr>p_currentGeneration := Some 3\<rparr>) initialState)) = 3
   \<and> maxGenerations (evolutionState
      (updateEvolutionState (no_evolution_updates\<lparr>p_currentGeneration := Some 3\<rparr>) initialState)) = 100
   \<and> populationSize (evolutionState
      (updateEvolutionState (no_evolution_updates\<lparr>p_currentGeneration := Some 3\<rparr>) initialState)) = 20"
  using updateEvolutionState_shallow_merge
    [of "no_evolution_updates\<lparr>p_currentGeneration := Some 3\<rparr>" initialState]
  by (simp add: no_evolution_updates_def initialState_def initialEvolutionState_def)

subsection \<open>Selecting the active conversation\<close>

text \<open>
  C10. \<open>setActiveConversation(cid)\<close> sets \<open>activeConversation\<close> to \<open>cid\<close>; afterwards the
  conversations map has an entry for \<open>cid\<close>: the empty list if \<open>cid\<close> was absent, its
  previous message list if it was present; every other conversation and every other
  field of the store is unchanged.
\<close>

theorem setActiveConversation_ensures_entry:
  fixes s :: "'z AppState_scheme"
  shows
  "activeConversation (setActiveConversation cid s) = cid
   \<and> conversations (setActiveConversation cid s) cid = Some (get_or_empty (conversations s) cid)
   \<and> (conversations s cid = None \<longrightarrow> conversations (setActiveConversation cid s) cid = Some [])
   \<and> (\<forall>ms. conversations s cid = Some ms
        \<longrightarrow> conversations (setActiveConversation cid s) cid = Some ms)
   \<and> (\<forall>c. c \<noteq> cid \<longrightarrow> conversations (setActiveConversation cid s) c = conversations s c)
   \<and> setActiveConversation cid s
      = s\<lparr>activeConversation := cid,
           conversations := conversations (setActiveConversation cid s)\<rparr>"
  by (auto simp add: setActiveConversation_def get_or_empty_def Let_def)

theorem setActiveConversation_ensures_entry_witness:
  "activeConversation (setActiveConversation ''c2'' two_messages) = ''c2''
   \<and> conversations (setActiveConversation ''c2'' two_messages) ''c2'' = Some []
   \<and> conversations (setActiveConversation ''c2'' two_messages) ''default'' = Some [m1, m2]
   \<and> conversations (setActiveConversation ''default'' two_messages) ''default'' = Some [m1, m2]"
  using setActiveConversation_ensures_entry [of "''c2''" two_messages]
    setActiveConversation_ensures_entry [of "''default''" two_messages]
  by (simp add: two_messages_def initialState_def get_or_empty_def)

section \<open>Properties of the event bus and the transport session\<close>

subsection \<open>What the bus operations leave alone\<close>

lemma same_session_refl: "same_session s s"
  by (simp add: same_session_def)

lemma same_session_trans: "same_session s s1 \<Longrightarrow> same_session s1 s2 \<Longrightarrow> same_session s s2"
  by (simp add: same_session_def)

lemma on_outside:
  "same_session s (fst (on ev h s)) \<and> emitted (fst (on ev h s)) = emitted s
   \<and> console (fst (on ev h s)) = console s \<and> calls (fst (on ev h s)) = calls s
   \<and> world (fst (on ev h s)) = world s"
  by (simp add: on_def same_session_def split: option.split)

lemma set_empty_array_outside:
  "same_session s (set_empty_array ev s) \<and> emitted (set_empty_array ev s) = emitted s
   \<and> console (set_empty_array ev s) = console s \<and> calls (set_empty_array ev s) = calls s
   \<and> world (set_empty_array ev s) = world s"
  by (simp add: set_empty_array_def same_session_def)

lemma call_unsubscribe_outside:
  "same_session s (call_unsubscribe u s) \<and> emitted (call_unsubscribe u s) = emitted s
   \<and> console (call_unsubscribe u s) = console s \<and> calls (call_unsubscribe u s) = calls s
   \<and> world (call_unsubscribe u s) = world s"
  by (cases u) (simp add: same_session_def Let_def split: option.split)

lemma off_outside:
  "same_session s (off ev h s) \<and> emitted (off ev h s) = emitted s
   \<and> console (off ev h s) = console s \<and> calls (off ev h s) = calls s
   \<and> world (off ev h s) = world s"
  using set_empty_array_outside [of s ev]
  by (simp add: off_def same_session_def Let_def split: option.split)

lemma inner_call_outside:
  "same_session s (inner_call c s) \<and> emitted (inner_call c s) = emitted s
   \<and> console (inner_call c s) = console s \<and> calls (inner_call c s) = calls s
   \<and> world (inner_call c s) = world s"
  by (cases c) (simp_all add: on_outside off_outside call_unsubscribe_outside)

lemma fold_inner_call_outside:
  "same_session s (fold inner_call cs s) \<and> emitted (fold inner_call cs s) = emitted s
   \<and> console (fold inner_call cs s) = console s \<and> calls (fold inner_call cs s) = calls s
   \<and> world (fold inner_call cs s) = world s"
proof (induction cs arbitrary: s)
  case Nil
  show ?case by (simp add: same_session_refl)
next
  case (Cons c cs)
  have a: "same_session s (inner_call c s)" and b: "emitted (inner_call c s) = emitted s"
    "console (inner_call c s) = console s" "calls (inner_call c s) = calls s"
    "world (inner_call c s) = world s"
    using inner_call_outside [of s c] by simp_all
  from Cons.IH [of "inner_call c s"] a b show ?case
    by (auto intro: same_session_trans)
qed

text \<open>The state after one handler call inside its try/catch.\<close>

lemma dispatch_one_result:
  "\<exists>s1. dispatch_one beh event data h s = Inr s1
     \<and> eventHandlers s1 = eventHandlers (fold inner_call (fst (beh h data (world s))) s)
     \<and> arrays s1 = arrays (fold inner_call (fst (beh h data (world s))) s)
     \<and> same_session s s1 \<and> emitted s1 = emitted s
     \<and> world s1 = world_after (snd (beh h data (world s)))
     \<and> calls s1 = calls s @ [(event, h, data, thrown (snd (beh h data (world s))))]
     \<and> console s1 = console s @ error_lines event [thrown (snd (beh h data (world s)))]"
proof -
  let ?s1 = "fold inner_call (fst (beh h data (world s))) s"
  note o = fold_inner_call_outside [of s "fst (beh h data (world s))"]
  show ?thesis
  proof (cases "snd (beh h data (world s))")
    case (Returns w)
    then have "dispatch_one beh event data h s
        = Inr (?s1\<lparr>calls := calls ?s1 @ [(event, h, data, None)], world := w\<rparr>)"
      by (simp add: dispatch_one_def call_handler_def try_catch_def Let_def)
    then show ?thesis
      using o Returns by (simp add: same_session_def world_after_def thrown_def error_lines_def)
  next
    case (Throws e w)
    then have "dispatch_one beh event data h s
        = Inr (console_error (''Error in event handler for '' @ event @ '':'') (Some e)
                (?s1\<lparr>calls := calls ?s1 @ [(event, h, data, Some e)], world := w\<rparr>))"
      by (simp add: dispatch_one_def call_handler_def try_catch_def Let_def)
    then show ?thesis
      using o Throws
      by (simp add: same_session_def world_after_def thrown_def error_lines_def console_error_def)
  qed
qed

subsection \<open>The invariant of the array store\<close>

text \<open>
  \<open>on\<close>, \<open>off\<close> and the unsubscribe closures keep the store of handler arrays well
  formed, and while \<open>forEach\<close> walks the array at an address they only lengthen that
  array, as long as no call takes a handler out of it.
\<close>

lemma wf_bus_set_empty_array: "wf_bus s \<Longrightarrow> wf_bus (set_empty_array ev s)"
  unfolding wf_bus_def set_empty_array_def
  by (auto simp: less_Suc_eq split: if_splits)

lemma wf_bus_on: "wf_bus s \<Longrightarrow> wf_bus (fst (on ev h s))"
  unfolding wf_bus_def on_def
  by (auto simp: less_Suc_eq split: option.splits if_splits)

lemma wf_bus_call_unsubscribe: "wf_bus s \<Longrightarrow> wf_bus (call_unsubscribe u s)"
proof (cases u)
  case (Unsubscribe ev h)
  assume "wf_bus s"
  then show ?thesis
    unfolding wf_bus_def Unsubscribe
    by (auto simp: Let_def split: option.splits if_splits)
qed

lemma wf_bus_off: "wf_bus s \<Longrightarrow> wf_bus (off ev h s)"
proof (cases h)
  case None
  assume "wf_bus s"
  then show ?thesis by (simp add: None off_def wf_bus_set_empty_array)
next
  case (Some x)
  assume "wf_bus s"
  then show ?thesis
    unfolding wf_bus_def Some off_def
    by (auto simp: Let_def split: option.splits if_splits)
qed

lemma wf_bus_inner_call: "wf_bus s \<Longrightarrow> wf_bus (inner_call c s)"
  by (cases c) (simp_all add: wf_bus_on wf_bus_off wf_bus_call_unsubscribe)

lemma wf_bus_fold_inner_call: "wf_bus s \<Longrightarrow> wf_bus (fold inner_call cs s)"
  by (induction cs arbitrary: s) (simp_all add: wf_bus_inner_call)

lemma wf_bus_cong:
  "eventHandlers s' = eventHandlers s \<Longrightarrow> arrays s' = arrays s \<Longrightarrow> wf_bus s' = wf_bus s"
  by (simp add: wf_bus_def)











subsection \<open>What \<open>emit\<close> does\<close>

lemma forEach_from_dispatch_frame:
  "\<exists>s'. forEach_from (\<lambda>s'. arrays s' ! a) k n (dispatch_one beh event data) s = Inr s'
     \<and> same_session s s' \<and> emitted s' = emitted s \<and> (wf_bus s \<longrightarrow> wf_bus s')"
proof (induction n arbitrary: k s)
  case 0
  show ?case by (simp add: same_session_refl)
next
  case (Suc n)
  show ?case
  proof (cases "k < length (arrays s ! a)")
    case False
    then show ?thesis using Suc.IH [of "Suc k" s] by simp
  next
    case True
    let ?h = "arrays s ! a ! k"
    obtain s1 where d: "dispatch_one beh event data ?h s = Inr s1"
      and e: "eventHandlers s1 = eventHandlers (fold inner_call (fst (beh ?h data (world s))) s)"
      and r: "arrays s1 = arrays (fold inner_call (fst (beh ?h data (world s))) s)"
      and f: "same_session s s1" "emitted s1 = emitted s"
      using dispatch_one_result [of beh event data ?h s] by blast
    have w: "wf_bus s \<longrightarrow> wf_bus s1"
      using wf_bus_cong [OF e r] wf_bus_fold_inner_call by blast
    obtain s' where l: "forEach_from (\<lambda>s'. arrays s' ! a) (Suc k) n (dispatch_one beh event data) s1
        = Inr s'"
      and g: "same_session s1 s'" "emitted s' = emitted s1" "wf_bus s1 \<longrightarrow> wf_bus s'"
      using Suc.IH [of "Suc k" s1] by blast
    have "forEach_from (\<lambda>s'. arrays s' ! a) k (Suc n) (dispatch_one beh event data) s = Inr s'"
      using True d l by simp
    moreover have "same_session s s'"
      using f(1) g(1) by (rule same_session_trans)
    ultimately show ?thesis using f(2) g(2) g(3) w by auto
  qed
qed


lemma length_invoke_in_order: "length (fst (invoke_in_order beh data hs w)) = length hs"
  by (induction hs arbitrary: w) (simp_all add: Let_def)




lemma emit_frame:
  "\<exists>s'. emit beh event data s = Inr s'
     \<and> emitted s' = emitted s @ [(event, data)]
     \<and> ws s' = ws s
     \<and> reconnectAttempts s' = reconnectAttempts s \<and> isConnecting s' = isConnecting s
     \<and> url s' = url s \<and> sockets s' = sockets s \<and> promises s' = promises s
     \<and> timeouts s' = timeouts s \<and> sent s' = sent s
     \<and> (wf_bus s \<longrightarrow> wf_bus s')"
proof (cases "eventHandlers s event")
  case None
  then show ?thesis
    by (simp add: emit_def Let_def wf_bus_def)
next
  case (Some a)
  let ?s0 = "s\<lparr>emitted := emitted s @ [(event, data)]\<rparr>"
  have e: "emit beh event data s
      = forEach_from (\<lambda>s'. arrays s' ! a) 0 (length (arrays s ! a)) (dispatch_one beh event data) ?s0"
    using Some by (simp add: emit_def Let_def forEach_def dispatch_one_def)
  obtain s' where "forEach_from (\<lambda>s'. arrays s' ! a) 0 (length (arrays s ! a))
        (dispatch_one beh event data) ?s0 = Inr s'"
    and "same_session ?s0 s'" "emitted s' = emitted ?s0" "wf_bus ?s0 \<longrightarrow> wf_bus s'"
    using forEach_from_dispatch_frame
      [of a 0 "length (arrays s ! a)" beh event data ?s0] by blast
  moreover have "wf_bus ?s0 = wf_bus s"
    by (simp add: wf_bus_def)
  ultimately show ?thesis
    using e by (simp add: same_session_def)
qed


subsection \<open>The invariant along the transport\<close>

lemma wf_bus_updates [simp]:
  "wf_bus (s\<lparr>ws := x1\<rparr>) = wf_bus s"
  "wf_bus (s\<lparr>reconnectAttempts := x2\<rparr>) = wf_bus s"
  "wf_bus (s\<lparr>isConnecting := x3\<rparr>) = wf_bus s"
  "wf_bus (s\<lparr>url := x4\<rparr>) = wf_bus s"
  "wf_bus (s\<lparr>sockets := x5\<rparr>) = wf_bus s"
  "wf_bus (s\<lparr>promises := x6\<rparr>) = wf_bus s"
  "wf_bus (s\<lparr>timeouts := x7\<rparr>) = wf_bus s"
  "wf_bus (s\<lparr>sent := x8\<rparr>) = wf_bus s"
  "wf_bus (s\<lparr>console := x9\<rparr>) = wf_bus s"
  "wf_bus (s\<lparr>emitted := y1\<rparr>) = wf_bus s"
  "wf_bus (s\<lparr>calls := y2\<rparr>) = wf_bus s"
  "wf_bus (s\<lparr>world := y3\<rparr>) = wf_bus s"
  by (simp_all add: wf_bus_def)

lemma wf_bus_resolve [simp]: "wf_bus (resolve p v s) = wf_bus s"
  by (simp add: resolve_def)

lemma wf_bus_reject [simp]: "wf_bus (reject p err s) = wf_bus s"
  by (simp add: reject_def)

lemma wf_bus_setTimeout [simp]: "wf_bus (setTimeout cb d s) = wf_bus s"
  by (simp add: setTimeout_def)

lemma wf_bus_console_error [simp]: "wf_bus (console_error text err s) = wf_bus s"
  by (simp add: console_error_def)

lemma wf_bus_sendMessage [simp]: "wf_bus (sendMessage ty d s) = wf_bus s"
  by (simp add: sendMessage_def console_warn_def split: option.split)

lemma wf_bus_checkConnection [simp]: "wf_bus (checkConnection p s) = wf_bus s"
  by (simp add: checkConnection_def)

lemma wf_bus_connect [simp]: "wf_bus (snd (connect e u s)) = wf_bus s"
  by (simp add: connect_def Let_def split: option.split)

lemma wf_bus_disconnect: "wf_bus (disconnect s)"
  by (simp add: wf_bus_def disconnect_def Let_def split: option.split)

lemma wf_bus_run_callback: "wf_bus s \<Longrightarrow> wf_bus (run_callback e cb s)"
  by (cases cb) (simp_all add: run_callback_def)

lemma wf_bus_emit: "wf_bus s \<Longrightarrow> emit beh event data s = Inr s' \<Longrightarrow> wf_bus s'"
  using emit_frame [of beh event data s] by auto

lemma wf_bus_handleReconnect:
  assumes "wf_bus s" and "handleReconnect beh s = Inr s'"
  shows "wf_bus s'"
proof (cases "reconnectAttempts s \<ge> maxReconnectAttempts")
  case True
  then have "emit beh ''connection_failed''
             (JObj [(''attempts'', JNum (int (reconnectAttempts s)))])
             (console_error ''Max reconnection attempts reached'' None s) = Inr s'"
    using assms(2) by (simp add: handleReconnect_def)
  then show ?thesis
    using assms(1) wf_bus_emit wf_bus_console_error by blast
next
  case False
  then show ?thesis
    using assms by (auto simp: handleReconnect_def Let_def)
qed

lemma wf_bus_ws_onclose:
  assumes "wf_bus s" and "ws_onclose beh i code reason s = Inr s'"
  shows "wf_bus s'"
proof -
  let ?d = "JObj [(''connected'', JBool False), (''reason'', JStr reason)]"
  obtain s2 where e: "emit beh ''connection_status'' ?d (s\<lparr>isConnecting := False\<rparr>) = Inr s2"
    and w: "wf_bus (s\<lparr>isConnecting := False\<rparr>) \<longrightarrow> wf_bus s2"
    using emit_frame [of beh "''connection_status''" ?d "s\<lparr>isConnecting := False\<rparr>"] by auto
  have "wf_bus (s\<lparr>isConnecting := False\<rparr>)"
    using assms(1) by simp
  then have w2: "wf_bus s2" using w by simp
  show ?thesis
  proof (cases "code \<noteq> 1000")
    case True
    then have "handleReconnect beh s2 = Inr s'"
      using assms(2) e by (simp add: ws_onclose_def Let_def)
    then show ?thesis using w2 wf_bus_handleReconnect by blast
  next
    case False
    then have "s' = s2"
      using assms(2) e by (simp add: ws_onclose_def Let_def)
    then show ?thesis using w2 by simp
  qed
qed

lemma wf_bus_ws_onopen:
  assumes "wf_bus s" and "ws_onopen beh i now s = Inr s'"
  shows "wf_bus s'"
proof -
  let ?s1 = "s\<lparr>isConnecting := False, reconnectAttempts := 0\<rparr>"
  let ?d = "JObj [(''connected'', JBool True)]"
  obtain s2 where e: "emit beh ''connection_status'' ?d ?s1 = Inr s2"
    and w: "wf_bus ?s1 \<longrightarrow> wf_bus s2"
    using emit_frame [of beh "''connection_status''" ?d ?s1] by auto
  have "wf_bus ?s1"
    using assms(1) by simp
  then have "wf_bus s2" using w by simp
  moreover have "s' = resolve (settles (sockets (sendMessage ''ping''
        (JObj [(''timestamp'', JStr now)]) s2) ! i)) True
      (sendMessage ''ping'' (JObj [(''timestamp'', JStr now)]) s2)"
    using assms(2) e by (simp add: ws_onopen_def Let_def)
  ultimately show ?thesis by simp
qed

lemma wf_bus_ws_onerror: "wf_bus s \<Longrightarrow> wf_bus (ws_onerror i s)"
  by (simp add: ws_onerror_def Let_def)

lemma wf_bus_step:
  assumes "wf_bus s" and "step e beh ev s = Some s'"
  shows "wf_bus s'"
proof (cases ev)
  case (CallConnect u)
  then show ?thesis using assms by auto
next
  case CallDisconnect
  then show ?thesis using assms by (auto simp: wf_bus_disconnect)
next
  case (CallOn t h)
  then show ?thesis using assms by (auto simp: wf_bus_on)
next
  case (CallOff t h)
  then show ?thesis using assms by (auto simp: wf_bus_off)
next
  case (CallUnsubscribe u)
  then show ?thesis using assms by (auto simp: wf_bus_call_unsubscribe)
next
  case (SocketOpen i now)
  then have "ws_onopen beh i now (set_readyState i OPEN s) = Inr s'"
    using assms(2) by (auto simp: returned_def split: if_splits sum.splits)
  moreover have "wf_bus (set_readyState i OPEN s)"
    using assms(1) by (simp add: set_readyState_def)
  ultimately show ?thesis using wf_bus_ws_onopen by blast
next
  case (SocketError i)
  then show ?thesis
    using assms by (auto simp: wf_bus_ws_onerror set_readyState_def split: if_splits)
next
  case (SocketClose i code reason)
  let ?s0 = "s\<lparr>sockets := (sockets s)[i := (sockets s ! i)\<lparr>readyState := CLOSED,
                                                           close_fired := True\<rparr>]\<rparr>"
  from SocketClose have "ws_onclose beh i code reason ?s0 = Inr s'"
    using assms(2) by (auto simp: returned_def split: if_splits sum.splits)
  moreover have "wf_bus ?s0"
    using assms(1) by simp
  ultimately show ?thesis using wf_bus_ws_onclose by blast
next
  case (TimerDue k)
  then show ?thesis
    using assms by (auto simp: wf_bus_run_callback split: if_splits)
qed

lemma wf_bus_run: "wf_bus s \<Longrightarrow> run e beh evs s = Some s' \<Longrightarrow> wf_bus s'"
proof (induction evs arbitrary: s)
  case Nil
  then show ?case by simp
next
  case (Cons ev evs)
  then show ?case
    by (auto split: option.splits dest: wf_bus_step)
qed



subsection \<open>Registration and removal\<close>
















subsection \<open>Errors thrown by subscribers (C6)\<close>




subsection \<open>Order of the subscribers and unsubscription (C5)\<close>




subsection \<open>Helper lemmas on the session\<close>

lemma ws_readyState_promises [simp]:
  "ws_readyState (s\<lparr>promises := ps\<rparr>) = ws_readyState s"
  by (simp add: ws_readyState_def split: option.split)

lemma disconnect_fields:
  "timeouts (disconnect s) = timeouts s \<and> ws (disconnect s) = None
   \<and> url (disconnect s) = url s \<and> isConnecting (disconnect s) = isConnecting s
   \<and> promises (disconnect s) = promises s
   \<and> length (sockets (disconnect s)) = length (sockets s)
   \<and> eventHandlers (disconnect s) = Map.empty"
  by (simp add: disconnect_def socket_close_def Let_def split: option.split)

lemma connect_fresh_socket:
  assumes "ws_readyState s \<noteq> Some OPEN" and "\<not> isConnecting s"
    and "WebSocket_throws e (resolve_wsUrl e u) = None"
  shows "snd (connect e u s) =
     s\<lparr>promises := promises s @ [Pending], isConnecting := True, url := resolve_wsUrl e u,
       sockets := sockets s @
         [\<lparr>sock_url = resolve_wsUrl e u, readyState = CONNECTING,
           settles = length (promises s), close_fired = False\<rparr>],
       ws := Some (length (sockets s))\<rparr>"
  using assms by (simp add: connect_def Let_def)

lemma socket_open_connects:
  fixes s :: "'w ws_state"
  assumes "ws s = Some i" and "i < length (sockets s)"
    and "readyState (sockets s ! i) = CONNECTING"
  shows "\<exists>s'. step e beh (SocketOpen i now) s = Some s' \<and> isConnected s'"
proof -
  let ?s0 = "set_readyState i OPEN s"
  let ?s1 = "?s0\<lparr>isConnecting := False, reconnectAttempts := 0\<rparr>"
  let ?d = "JObj [(''connected'', JBool True)]"
  obtain s2 where e: "emit beh ''connection_status'' ?d ?s1 = Inr s2"
    and f: "ws s2 = ws ?s1" "sockets s2 = sockets ?s1"
    using emit_frame [of beh "''connection_status''" ?d ?s1] by auto
  let ?s3 = "sendMessage ''ping'' (JObj [(''timestamp'', JStr now)]) s2"
  let ?s4 = "resolve (settles (sockets ?s3 ! i)) True ?s3"
  have o: "ws_onopen beh i now ?s0 = Inr ?s4"
    using e by (simp add: ws_onopen_def Let_def)
  have w: "ws s2 = Some i" and r: "readyState (sockets s2 ! i) = OPEN"
    using f assms by (simp_all add: set_readyState_def)
  have "ws ?s3 = Some i \<and> readyState (sockets ?s3 ! i) = OPEN"
    using w r by (simp add: sendMessage_def)
  then have "isConnected ?s4"
    by (simp add: isConnected_def ws_readyState_def resolve_def)
  moreover have "step e beh (SocketOpen i now) s = Some ?s4"
    using assms o by (simp add: returned_def)
  ultimately show ?thesis by blast
qed

subsection \<open>\<open>connect\<close> while open\<close>

text \<open>
  C7. In every state in which the current socket is open, \<open>connect\<close> creates no socket:
  it returns a new promise that is already resolved with \<open>true\<close> and leaves every field
  of the service as it was. Two calls in a row give two distinct promises, both
  resolved with \<open>true\<close>, and the same sockets as before.
\<close>

theorem connect_idempotent_while_open:
  assumes "ws_readyState s = Some OPEN"
  shows "connect e u s = (length (promises s), s\<lparr>promises := promises s @ [Resolved True]\<rparr>)
    \<and> (let (p1, s1) = connect e u s; (p2, s2) = connect e u' s1
        in p1 \<noteq> p2 \<and> promises s2 ! p1 = Resolved True \<and> promises s2 ! p2 = Resolved True
           \<and> sockets s2 = sockets s \<and> ws s2 = ws s
           \<and> s2 = s\<lparr>promises := promises s @ [Resolved True, Resolved True]\<rparr>)"
proof -
  have one: "connect e u s = (length (promises s), s\<lparr>promises := promises s @ [Resolved True]\<rparr>)"
    if "ws_readyState s = Some OPEN" for u and s :: "'a ws_state"
    using that by (simp add: connect_def Let_def resolve_def)
  let ?s1 = "s\<lparr>promises := promises s @ [Resolved True]\<rparr>"
  have o1: "ws_readyState ?s1 = Some OPEN"
    using assms by simp
  have c1: "connect e u s = (length (promises s), ?s1)"
    using assms by (rule one)
  have c2: "connect e u' ?s1 = (length (promises ?s1), ?s1\<lparr>promises := promises ?s1 @ [Resolved True]\<rparr>)"
    using o1 by (rule one)
  show ?thesis
    unfolding c1 using c2 by (simp add: nth_append)
qed

theorem connect_idempotent_while_open_witness:
  "ws_readyState open_session = Some OPEN
   \<and> length (sockets open_session) = 1
   \<and> length (sockets (snd (connect env0 ''/'' (snd (connect env0 ''/'' open_session))))) = 1
   \<and> promises (snd (connect env0 ''/'' (snd (connect env0 ''/'' open_session))))
       = [Resolved True, Resolved True, Resolved True]"
proof -
  have o: "ws_readyState open_session = Some OPEN"
    by code_simp
  have l: "length (sockets open_session) = 1"
    by code_simp
  have p: "promises open_session = [Resolved True]"
    by code_simp
  note t = connect_idempotent_while_open [OF o, of env0 "''/''" "''/''"]
  from t have "snd (connect env0 ''/'' (snd (connect env0 ''/'' open_session)))
      = open_session\<lparr>promises := promises open_session @ [Resolved True, Resolved True]\<rparr>"
    unfolding Let_def split_def by blast
  with o l p show ?thesis by simp
qed

subsection \<open>Reconnection backoff\<close>

text \<open>
  C2. On every close with a code other than 1000: while the attempt counter is below
  the maximum, the counter is incremented to \<open>n\<close> and one reconnection callback is
  scheduled with delay \<open>reconnectDelay * 2 ^ (n - 1)\<close> milliseconds, and no
  \<open>connection_failed\<close> event is emitted; once the counter has reached the maximum, no
  callback is scheduled, the counter stays, and \<open>connection_failed\<close> is emitted exactly
  once, carrying the attempt count. The base delay is 1000 and the maximum is 5.
\<close>

theorem unclean_close_backoff:
  assumes "code \<noteq> 1000"
  shows
  "(reconnectAttempts s < maxReconnectAttempts \<longrightarrow>
      (\<exists>s'. ws_onclose beh i code reason s = Inr s'
         \<and> reconnectAttempts s' = reconnectAttempts s + 1
         \<and> timeouts s' = timeouts s @ [(reconnectDelay * 2 ^ (reconnectAttempts s' - 1), Reconnect)]
         \<and> emitted s' = emitted s @
             [(''connection_status'', JObj [(''connected'', JBool False), (''reason'', JStr reason)])]))
   \<and> (reconnectAttempts s \<ge> maxReconnectAttempts \<longrightarrow>
      (\<exists>s'. ws_onclose beh i code reason s = Inr s'
         \<and> reconnectAttempts s' = reconnectAttempts s
         \<and> timeouts s' = timeouts s
         \<and> emitted s' = emitted s @
             [(''connection_status'', JObj [(''connected'', JBool False), (''reason'', JStr reason)]),
              (''connection_failed'', JObj [(''attempts'', JNum (int (reconnectAttempts s)))])]))
   \<and> maxReconnectAttempts = 5 \<and> reconnectDelay = 1000"
proof -
  let ?st = "JObj [(''connected'', JBool False), (''reason'', JStr reason)]"
  obtain s2 where e1: "emit beh ''connection_status'' ?st (s\<lparr>isConnecting := False\<rparr>) = Inr s2"
    and f1: "emitted s2 = emitted s @ [(''connection_status'', ?st)]"
        "reconnectAttempts s2 = reconnectAttempts s" "timeouts s2 = timeouts s"
    using emit_frame [of beh "''connection_status''" ?st "s\<lparr>isConnecting := False\<rparr>"] by auto
  have oc: "ws_onclose beh i code reason s = handleReconnect beh s2"
    using assms e1 by (simp add: ws_onclose_def Let_def)
  have low: "reconnectAttempts s < maxReconnectAttempts \<longrightarrow>
      (\<exists>s'. ws_onclose beh i code reason s = Inr s'
         \<and> reconnectAttempts s' = reconnectAttempts s + 1
         \<and> timeouts s' = timeouts s @ [(reconnectDelay * 2 ^ (reconnectAttempts s' - 1), Reconnect)]
         \<and> emitted s' = emitted s @ [(''connection_status'', ?st)])"
    unfolding oc using f1 by (simp add: handleReconnect_def Let_def setTimeout_def)
  have high: "reconnectAttempts s \<ge> maxReconnectAttempts \<longrightarrow>
      (\<exists>s'. ws_onclose beh i code reason s = Inr s'
         \<and> reconnectAttempts s' = reconnectAttempts s
         \<and> timeouts s' = timeouts s
         \<and> emitted s' = emitted s @
             [(''connection_status'', ?st),
              (''connection_failed'', JObj [(''attempts'', JNum (int (reconnectAttempts s)))])])"
  proof
    assume h: "reconnectAttempts s \<ge> maxReconnectAttempts"
    let ?s3 = "console_error ''Max reconnection attempts reached'' None s2"
    let ?f = "JObj [(''attempts'', JNum (int (reconnectAttempts s2)))]"
    obtain s4 where e2: "emit beh ''connection_failed'' ?f ?s3 = Inr s4"
      and f2: "emitted s4 = emitted ?s3 @ [(''connection_failed'', ?f)]"
          "reconnectAttempts s4 = reconnectAttempts ?s3" "timeouts s4 = timeouts ?s3"
      using emit_frame [of beh "''connection_failed''" ?f ?s3] by auto
    have "handleReconnect beh s2 = Inr s4"
      using h f1 e2 by (simp add: handleReconnect_def)
    then show "\<exists>s'. ws_onclose beh i code reason s = Inr s'
         \<and> reconnectAttempts s' = reconnectAttempts s
         \<and> timeouts s' = timeouts s
         \<and> emitted s' = emitted s @
             [(''connection_status'', ?st),
              (''connection_failed'', JObj [(''attempts'', JNum (int (reconnectAttempts s)))])]"
      unfolding oc using f1 f2 by (simp add: console_error_def)
  qed
  from low high show ?thesis
    by (simp add: maxReconnectAttempts_def reconnectDelay_def)
qed

theorem unclean_close_backoff_witness:
  "map_option (\<lambda>s'. (reconnectAttempts s', timeouts s'))
      (returned (ws_onclose quiet 0 1006 [] (snd (connect env0 ''/'' (new_WebSocketService ())))))
     = Some (1, [(1000, Reconnect)])
   \<and> reconnectAttempts exhausted = 5
   \<and> map_option (\<lambda>s'. (reconnectAttempts s', timeouts s',
                        drop (length (emitted exhausted)) (emitted s')))
      (returned (ws_onclose quiet 5 1006 [] exhausted))
     = Some (5, [],
         [(''connection_status'', JObj [(''connected'', JBool False), (''reason'', JStr [])]),
          (''connection_failed'', JObj [(''attempts'', JNum 5)])])"
proof -
  let ?s0 = "snd (connect env0 ''/'' (new_WebSocketService ()))"
  have c: "(1006::nat) \<noteq> 1000" by simp
  note t0 = unclean_close_backoff [OF c, of ?s0 quiet 0 "[]"]
  note t5 = unclean_close_backoff [OF c, of exhausted quiet 5 "[]"]
  have r0: "reconnectAttempts ?s0 = 0" and q0: "timeouts ?s0 = []"
    by code_simp+
  have r5: "reconnectAttempts exhausted = 5" and q5: "timeouts exhausted = []"
    by code_simp+
  from t0 r0 obtain s' where "ws_onclose quiet 0 1006 [] ?s0 = Inr s'"
    and "reconnectAttempts s' = 1" and "timeouts s' = timeouts ?s0 @ [(1000 * 2 ^ (1 - 1), Reconnect)]"
    by auto
  then have a: "map_option (\<lambda>s'. (reconnectAttempts s', timeouts s'))
      (returned (ws_onclose quiet 0 1006 [] ?s0)) = Some (1, [(1000, Reconnect)])"
    using q0 by (simp add: returned_def)
  from t5 r5 obtain s'' where "ws_onclose quiet 5 1006 [] exhausted = Inr s''"
    and "reconnectAttempts s'' = 5" and "timeouts s'' = timeouts exhausted"
    and "emitted s'' = emitted exhausted @
             [(''connection_status'', JObj [(''connected'', JBool False), (''reason'', JStr [])]),
              (''connection_failed'', JObj [(''attempts'', JNum (int 5))])]"
    by auto
  then have b: "map_option (\<lambda>s'. (reconnectAttempts s', timeouts s',
                        drop (length (emitted exhausted)) (emitted s')))
      (returned (ws_onclose quiet 5 1006 [] exhausted))
     = Some (5, [],
         [(''connection_status'', JObj [(''connected'', JBool False), (''reason'', JStr [])]),
          (''connection_failed'', JObj [(''attempts'', JNum 5)])])"
    using q5 by (simp add: returned_def)
  from a r5 b show ?thesis by blast
qed

text \<open>
  Six connection attempts in a row that all fail: the delays scheduled are 1000, 2000,
  4000, 8000 and 16000 ms, the sixth failure schedules nothing, and \<open>connection_failed\<close>
  is emitted once in the whole execution.
\<close>

lemma six_failures_run:
  "map (\<lambda>k. map_option (\<lambda>s. (reconnectAttempts s, timeouts s))
             (run env0 quiet (take k six_failures) (new_WebSocketService ())))
       [2, 4, 6, 8, 10, 12]
     = [Some (1, [(1000, Reconnect)]), Some (2, [(2000, Reconnect)]),
        Some (3, [(4000, Reconnect)]), Some (4, [(8000, Reconnect)]),
        Some (5, [(16000, Reconnect)]), Some (5, [])]
   \<and> map_option (\<lambda>s. filter (\<lambda>(ev, d). ev = ''connection_failed'') (emitted s))
        (run env0 quiet six_failures (new_WebSocketService ()))
     = Some [(''connection_failed'', JObj [(''attempts'', JNum 5)])]"
  by code_simp

subsection \<open>\<open>disconnect\<close> and a pending reconnection\<close>

text \<open>
  The claim C1 as stated fails. A session connects, opens and loses its connection
  (close code 1006), which schedules a reconnection in 1000 ms. Then \<open>disconnect()\<close> is
  called: the callback is still scheduled. When it comes due it creates a second
  socket, and when that socket opens the session is connected again, although
  \<open>connect\<close> was called only once, before the connection was lost.
\<close>

theorem disconnect_does_not_cancel_timer_counterexample:
  "map_option timeouts
     (run env0 quiet (unclean_close_trace @ [CallDisconnect]) (new_WebSocketService ()))
     = Some [(1000, Reconnect)]
   \<and> map_option isConnected
       (run env0 quiet (unclean_close_trace @ [CallDisconnect]) (new_WebSocketService ()))
     = Some False
   \<and> map_option ws
       (run env0 quiet (unclean_close_trace @ [CallDisconnect, TimerDue 0])
          (new_WebSocketService ()))
     = Some (Some 1)
   \<and> map_option isConnecting
       (run env0 quiet (unclean_close_trace @ [CallDisconnect, TimerDue 0])
          (new_WebSocketService ()))
     = Some True
   \<and> map_option isConnected
       (run env0 quiet (unclean_close_trace @ [CallDisconnect, TimerDue 0, SocketOpen 1 ''t1''])
          (new_WebSocketService ()))
     = Some True"
  by code_simp

text \<open>
  C1, amended. \<open>disconnect()\<close> drops the reference to the socket and clears all
  subscriptions, but it cancels no scheduled callback. A reconnection callback that
  comes due after \<open>disconnect()\<close> finds no socket and therefore calls
  \<open>connect(this.url)\<close>; unless an attempt is still marked as in flight or the \<open>WebSocket\<close>
  constructor throws, this creates a new connecting socket and makes it the current one.
  Whenever the current socket opens, the session is connected. Only the close event
  with code 1000 itself schedules no reconnection.
\<close>

theorem disconnect_keeps_reconnect_timer:
  fixes s :: "'w ws_state"
  shows
  "timeouts (disconnect s) = timeouts s
   \<and> ws (disconnect s) = None
   \<and> eventHandlers (disconnect s) = Map.empty
   \<and> run_callback e Reconnect (disconnect s) = snd (connect e (url s) (disconnect s))
   \<and> (\<not> isConnecting s \<and> WebSocket_throws e (resolve_wsUrl e (url s)) = None \<longrightarrow>
        ws (run_callback e Reconnect (disconnect s)) = Some (length (sockets s))
        \<and> sockets (run_callback e Reconnect (disconnect s))
            = sockets (disconnect s) @
                [\<lparr>sock_url = resolve_wsUrl e (url s), readyState = CONNECTING,
                  settles = length (promises s), close_fired = False\<rparr>]
        \<and> isConnecting (run_callback e Reconnect (disconnect s)))
   \<and> (\<forall>(s2 :: 'w ws_state) j now.
        ws s2 = Some j \<and> j < length (sockets s2) \<and> readyState (sockets s2 ! j) = CONNECTING
        \<longrightarrow> (\<exists>s'. step e beh (SocketOpen j now) s2 = Some s' \<and> isConnected s'))
   \<and> (\<exists>s'. ws_onclose beh i 1000 reason s = Inr s' \<and> timeouts s' = timeouts s
          \<and> reconnectAttempts s' = reconnectAttempts s)"
proof (intro conjI allI impI)
  show "timeouts (disconnect s) = timeouts s" "ws (disconnect s) = None"
    "eventHandlers (disconnect s) = Map.empty"
    by (simp_all add: disconnect_fields)
next
  show rc: "run_callback e Reconnect (disconnect s) = snd (connect e (url s) (disconnect s))"
    by (simp add: run_callback_def disconnect_fields)
next
  assume a: "\<not> isConnecting s \<and> WebSocket_throws e (resolve_wsUrl e (url s)) = None"
  have rc: "run_callback e Reconnect (disconnect s) = snd (connect e (url s) (disconnect s))"
    by (simp add: run_callback_def disconnect_fields)
  have "ws_readyState (disconnect s) \<noteq> Some OPEN"
    by (simp add: ws_readyState_def disconnect_fields)
  moreover have "\<not> isConnecting (disconnect s)"
    using a by (simp add: disconnect_fields)
  ultimately have c: "snd (connect e (url s) (disconnect s)) =
     (disconnect s)\<lparr>promises := promises (disconnect s) @ [Pending], isConnecting := True,
       url := resolve_wsUrl e (url s),
       sockets := sockets (disconnect s) @
         [\<lparr>sock_url = resolve_wsUrl e (url s), readyState = CONNECTING,
           settles = length (promises (disconnect s)), close_fired = False\<rparr>],
       ws := Some (length (sockets (disconnect s)))\<rparr>"
    using a by (simp add: connect_fresh_socket)
  show "ws (run_callback e Reconnect (disconnect s)) = Some (length (sockets s))"
    unfolding rc c by (simp add: disconnect_fields)
  show "sockets (run_callback e Reconnect (disconnect s))
            = sockets (disconnect s) @
                [\<lparr>sock_url = resolve_wsUrl e (url s), readyState = CONNECTING,
                  settles = length (promises s), close_fired = False\<rparr>]"
    unfolding rc c by (simp add: disconnect_fields)
  show "isConnecting (run_callback e Reconnect (disconnect s))"
    unfolding rc c by simp
next
  fix s2 :: "'w ws_state" and j now
  assume "ws s2 = Some j \<and> j < length (sockets s2) \<and> readyState (sockets s2 ! j) = CONNECTING"
  then show "\<exists>s'. step e beh (SocketOpen j now) s2 = Some s' \<and> isConnected s'"
    using socket_open_connects [of s2 j e beh now] by blast
next
  let ?d = "JObj [(''connected'', JBool False), (''reason'', JStr reason)]"
  obtain s2 where "emit beh ''connection_status'' ?d (s\<lparr>isConnecting := False\<rparr>) = Inr s2"
    and "timeouts s2 = timeouts s" "reconnectAttempts s2 = reconnectAttempts s"
    using emit_frame [of beh "''connection_status''" ?d "s\<lparr>isConnecting := False\<rparr>"] by auto
  then show "\<exists>s'. ws_onclose beh i 1000 reason s = Inr s' \<and> timeouts s' = timeouts s
          \<and> reconnectAttempts s' = reconnectAttempts s"
    by (simp add: ws_onclose_def Let_def)
qed

theorem disconnect_keeps_reconnect_timer_witness:
  "timeouts (disconnect after_unclean_close) = [(1000, Reconnect)]
   \<and> ws (run_callback env0 Reconnect (disconnect after_unclean_close)) = Some 1
   \<and> isConnecting (run_callback env0 Reconnect (disconnect after_unclean_close))
   \<and> map_option isConnected
       (step env0 quiet (SocketOpen 1 ''t1'')
          (run_callback env0 Reconnect (disconnect after_unclean_close))) = Some True"
proof -
  let ?s = after_unclean_close
  let ?r = "run_callback env0 Reconnect (disconnect ?s)"
  note t = disconnect_keeps_reconnect_timer [of ?s env0 quiet 0 "[]"]
  have q: "timeouts ?s = [(1000, Reconnect)]" by code_simp
  have c: "\<not> isConnecting ?s" by code_simp
  have w: "WebSocket_throws env0 (resolve_wsUrl env0 (url ?s)) = None" by code_simp
  have l: "length (sockets ?s) = 1" by code_simp
  have a: "timeouts (disconnect ?s) = [(1000, Reconnect)]"
    using t q by simp
  from t c w have b: "ws ?r = Some (length (sockets ?s))"
    and k: "sockets ?r = sockets (disconnect ?s) @
                [\<lparr>sock_url = resolve_wsUrl env0 (url ?s), readyState = CONNECTING,
                  settles = length (promises ?s), close_fired = False\<rparr>]"
    and i: "isConnecting ?r"
    by blast+
  have ld: "length (sockets (disconnect ?s)) = 1"
    using l by (simp add: disconnect_fields)
  have "ws ?r = Some 1 \<and> 1 < length (sockets ?r) \<and> readyState (sockets ?r ! 1) = CONNECTING"
    using b k l ld by (simp add: nth_append)
  with t obtain s' where "step env0 quiet (SocketOpen 1 ''t1'') ?r = Some s'" and "isConnected s'"
    by blast
  then have d: "map_option isConnected (step env0 quiet (SocketOpen 1 ''t1'') ?r) = Some True"
    by simp
  from a b l i d show ?thesis by simp
qed

end
